theory Spec2Isabelle
  imports Complex_Main "HOL-Library.Multiset"
begin

section \<open>Data model of the interactive map\<close>

text \<open>
  The map component keeps a pan/zoom transform and a few gesture flags in React state.
  A JavaScript \<open>number\<close> is modelled as a \<open>real\<close>: the arithmetic of the handlers is
  read as exact arithmetic, so rounding, \<open>NaN\<close> and \<open>Infinity\<close> are outside the model.
  Record fields carry a short prefix where the source's field name (\<open>x\<close>, \<open>y\<close>,
  \<open>scale\<close>, \<open>top\<close>, \<open>id\<close>) would shadow a variable or a constant of HOL.
\<close>

record Transform =
  tr_x :: real
  tr_y :: real
  tr_scale :: real

text \<open>The object \<open>{ x, y }\<close> that \<open>constrainToBounds\<close> returns, also \<open>dragStart\<close>.\<close>

record Position =
  pos_x :: real
  pos_y :: real

text \<open>The fields of \<open>getBoundingClientRect()\<close> that the handlers read.\<close>

record Rect =
  r_left :: real
  r_top :: real
  r_width :: real
  r_height :: real

text \<open>A pointer position: a mouse event, or one entry of \<open>e.touches\<close>.\<close>

record Touch =
  clientX :: real
  clientY :: real

text \<open>
  \<open>targetOnMarker\<close> is the outcome of
  \<open>(e.target as HTMLElement).closest('.project-marker')\<close>.
\<close>

record MouseEvent = Touch +
  targetOnMarker :: bool

record WheelEvent = Touch +
  deltaY :: real

record TouchEvent =
  touches :: "Touch list"
  touchOnMarker :: bool

text \<open>The part of the component state that the transform handlers read and write.\<close>

record MapState =
  transform :: Transform
  isDragging :: bool
  dragStart :: Position
  lastTouchDistance :: "real option"

text \<open>
  \<open>useState<Transform>({ x: 0, y: 0, scale: 1 })\<close>, \<open>useState(false)\<close>,
  \<open>useState({ x: 0, y: 0 })\<close>, \<open>useState<number | null>(null)\<close>.
\<close>

definition initialState :: MapState where
  "initialState =
     \<lparr>transform = \<lparr>tr_x = 0, tr_y = 0, tr_scale = 1\<rparr>,
      isDragging = False,
      dragStart = \<lparr>pos_x = 0, pos_y = 0\<rparr>,
      lastTouchDistance = None\<rparr>"

section \<open>Constants of the logical canvas\<close>

definition mapWidth :: real where "mapWidth = 2638"
definition mapHeight :: real where "mapHeight = 1822"
definition mapOffsetX :: real where "mapOffsetX = 455"
definition mapOffsetY :: real where "mapOffsetY = 521"

section \<open>Boundary clamping\<close>

text \<open>
  \<open>constrainToBounds\<close>. The first argument is \<open>mapRef.current?.getBoundingClientRect()\<close>:
  \<open>None\<close> when the element is not mounted, in which case the position is returned as it
  came.
\<close>

definition constrainToBounds :: "Rect option \<Rightarrow> real \<Rightarrow> real \<Rightarrow> real \<Rightarrow> Position" where
  "constrainToBounds rect px py s =
     (case rect of
        None \<Rightarrow> \<lparr>pos_x = px, pos_y = py\<rparr>
      | Some r \<Rightarrow>
          (let scaledMapWidth = mapWidth * s;
               scaledMapHeight = mapHeight * s;
               scaledOffsetX = mapOffsetX * s;
               scaledOffsetY = mapOffsetY * s;
               minX = r_width r - scaledMapWidth;
               maxX = scaledOffsetX;
               minY = r_height r - scaledMapHeight;
               maxY = scaledOffsetY
           in \<lparr>pos_x = min (max px minX) maxX, pos_y = min (max py minY) maxY\<rparr>))"

text \<open>
  The clamp of the specification, written from its words: a value below the interval goes
  to the lower end, a value above it to the upper end, a value inside stays.
\<close>

definition clamp_spec :: "real \<Rightarrow> real \<Rightarrow> real \<Rightarrow> real" where
  "clamp_spec v lo hi = (if v < lo then lo else if hi < v then hi else v)"

section \<open>Initial centering and the reset button\<close>

text \<open>
  \<open>centerMap\<close>, run once after mount. It returns early when the element is not mounted.
\<close>

definition centerMap :: "Rect option \<Rightarrow> MapState \<Rightarrow> MapState" where
  "centerMap rect st =
     (case rect of
        None \<Rightarrow> st
      | Some r \<Rightarrow>
          (let effectiveMapWidth = mapWidth - mapOffsetX;
               effectiveMapHeight = mapHeight - mapOffsetY;
               scaleToFitWidth = r_width r / effectiveMapWidth;
               scaleToFitHeight = r_height r / effectiveMapHeight;
               optimalScale = min scaleToFitWidth scaleToFitHeight * 0.95;
               initialScale = max optimalScale 0.6;
               centerX = (r_width r - effectiveMapWidth * initialScale) / 2;
               centerY = (r_height r - effectiveMapHeight * initialScale) / 2;
               constrainedPosition = constrainToBounds rect centerX centerY initialScale
           in st\<lparr>transform :=
                  \<lparr>tr_x = pos_x constrainedPosition,
                   tr_y = pos_y constrainedPosition,
                   tr_scale = initialScale\<rparr>\<rparr>))"

text \<open>The \<open>onClick\<close> of the Reset button.\<close>

definition resetButton_onClick :: "Rect option \<Rightarrow> MapState \<Rightarrow> MapState" where
  "resetButton_onClick rect st =
     (case rect of
        None \<Rightarrow> st
      | Some r \<Rightarrow>
          (let effectiveMapWidth = mapWidth - mapOffsetX;
               effectiveMapHeight = mapHeight - mapOffsetY;
               scaleToFitWidth = r_width r / effectiveMapWidth;
               scaleToFitHeight = r_height r / effectiveMapHeight;
               optimalScale = min scaleToFitWidth scaleToFitHeight * 0.95;
               resetScale = max optimalScale 0.6;
               centerX = (r_width r - effectiveMapWidth * resetScale) / 2;
               centerY = (r_height r - effectiveMapHeight * resetScale) / 2;
               constrainedPosition = constrainToBounds rect centerX centerY resetScale
           in st\<lparr>transform :=
                  \<lparr>tr_x = pos_x constrainedPosition,
                   tr_y = pos_y constrainedPosition,
                   tr_scale = resetScale\<rparr>\<rparr>))"

section \<open>Zoom buttons\<close>

text \<open>
  The local \<open>absoluteMinZoom\<close> of \<open>handleWheel\<close> and of the zoom-out button (which
  computes it "same way as in handleWheel"): the dynamic lower bound of the scale.
\<close>

definition absoluteMinZoom :: "Rect \<Rightarrow> real" where
  "absoluteMinZoom r =
     (let effectiveMapWidth = mapWidth - mapOffsetX;
          effectiveMapHeight = mapHeight - mapOffsetY;
          scaleToFitWidth = r_width r / effectiveMapWidth;
          scaleToFitHeight = r_height r / effectiveMapHeight;
          minZoomScale = min scaleToFitWidth scaleToFitHeight * 0.9
      in max minZoomScale 0.6)"

text \<open>The \<open>onClick\<close> of the "+" button: it does not read the viewport itself.\<close>

definition zoomInButton_onClick :: "Rect option \<Rightarrow> MapState \<Rightarrow> MapState" where
  "zoomInButton_onClick rect st =
     (let t = transform st;
          newScale = min (tr_scale t * 1.2) 3;
          constrainedPosition = constrainToBounds rect (tr_x t) (tr_y t) newScale
      in st\<lparr>transform :=
             \<lparr>tr_x = pos_x constrainedPosition,
              tr_y = pos_y constrainedPosition,
              tr_scale = newScale\<rparr>\<rparr>)"

text \<open>The \<open>onClick\<close> of the "-" button.\<close>

definition zoomOutButton_onClick :: "Rect option \<Rightarrow> MapState \<Rightarrow> MapState" where
  "zoomOutButton_onClick rect st =
     (case rect of
        None \<Rightarrow> st
      | Some r \<Rightarrow>
          (let t = transform st;
               newScale = max (tr_scale t * 0.8) (absoluteMinZoom r);
               constrainedPosition = constrainToBounds rect (tr_x t) (tr_y t) newScale
           in st\<lparr>transform :=
                  \<lparr>tr_x = pos_x constrainedPosition,
                   tr_y = pos_y constrainedPosition,
                   tr_scale = newScale\<rparr>\<rparr>))"

section \<open>Mouse drag\<close>

definition handleMouseDown :: "MapState \<Rightarrow> MouseEvent \<Rightarrow> MapState" where
  "handleMouseDown st e =
     (if targetOnMarker e then st
      else st\<lparr>isDragging := True,
              dragStart := \<lparr>pos_x = clientX e - tr_x (transform st),
                            pos_y = clientY e - tr_y (transform st)\<rparr>\<rparr>)"

text \<open>
  \<open>handleMouseMove\<close>: \<open>setTransform(prev => ({ ...prev, x, y }))\<close> keeps the scale of the
  state it updates.
\<close>

definition handleMouseMove :: "Rect option \<Rightarrow> MapState \<Rightarrow> MouseEvent \<Rightarrow> MapState" where
  "handleMouseMove rect st e =
     (if \<not> isDragging st then st
      else
        (let rawNewX = clientX e - pos_x (dragStart st);
             rawNewY = clientY e - pos_y (dragStart st);
             constrainedPosition =
               constrainToBounds rect rawNewX rawNewY (tr_scale (transform st))
         in st\<lparr>transform :=
                (transform st)\<lparr>tr_x := pos_x constrainedPosition,
                                tr_y := pos_y constrainedPosition\<rparr>\<rparr>))"

definition handleMouseUp :: "MapState \<Rightarrow> MapState" where
  "handleMouseUp st = st\<lparr>isDragging := False\<rparr>"

section \<open>Wheel zoom\<close>

text \<open>
  The transform that \<open>handleWheel\<close> computes before it clamps the translation:
  \<open>rawNewX\<close>, \<open>rawNewY\<close> and \<open>newScale\<close>.
\<close>

definition wheelRaw :: "Rect \<Rightarrow> Transform \<Rightarrow> WheelEvent \<Rightarrow> Transform" where
  "wheelRaw r t e =
     (let mouseX = clientX e - r_left r;
          mouseY = clientY e - r_top r;
          scaleFactor = (if deltaY e > 0 then 0.9 else 1.1);
          newScale = min (max (tr_scale t * scaleFactor) (absoluteMinZoom r)) 3;
          rawNewX = mouseX - (mouseX - tr_x t) * (newScale / tr_scale t);
          rawNewY = mouseY - (mouseY - tr_y t) * (newScale / tr_scale t)
      in \<lparr>tr_x = rawNewX, tr_y = rawNewY, tr_scale = newScale\<rparr>)"

definition handleWheel :: "Rect option \<Rightarrow> MapState \<Rightarrow> WheelEvent \<Rightarrow> MapState" where
  "handleWheel rect st e =
     (case rect of
        None \<Rightarrow> st
      | Some r \<Rightarrow>
          (let raw = wheelRaw r (transform st) e;
               constrainedPosition =
                 constrainToBounds rect (tr_x raw) (tr_y raw) (tr_scale raw)
           in st\<lparr>transform :=
                  \<lparr>tr_x = pos_x constrainedPosition,
                   tr_y = pos_y constrainedPosition,
                   tr_scale = tr_scale raw\<rparr>\<rparr>))"

section \<open>Touch: single-finger drag and pinch zoom\<close>

text \<open>\<open>getTouchDistance\<close>: \<open>null\<close> with fewer than two touches.\<close>

definition getTouchDistance :: "Touch list \<Rightarrow> real option" where
  "getTouchDistance ts =
     (if length ts < 2 then None
      else
        (let dx = clientX (ts ! 0) - clientX (ts ! 1);
             dy = clientY (ts ! 0) - clientY (ts ! 1)
         in Some (sqrt (dx * dx + dy * dy))))"

text \<open>
  JavaScript truthiness of a \<open>number | null\<close>: \<open>null\<close> and \<open>0\<close> are falsy.
\<close>

definition truthy :: "real option \<Rightarrow> bool" where
  "truthy v = (case v of None \<Rightarrow> False | Some d \<Rightarrow> d \<noteq> 0)"

definition handleTouchStart :: "MapState \<Rightarrow> TouchEvent \<Rightarrow> MapState" where
  "handleTouchStart st e =
     (if length (touches e) = 1 then
        (if touchOnMarker e then st
         else st\<lparr>isDragging := True,
                 dragStart := \<lparr>pos_x = clientX (touches e ! 0) - tr_x (transform st),
                               pos_y = clientY (touches e ! 0) - tr_y (transform st)\<rparr>\<rparr>)
      else if length (touches e) = 2 then
        st\<lparr>isDragging := False, lastTouchDistance := getTouchDistance (touches e)\<rparr>
      else st)"

text \<open>
  The transform that the pinch branch of \<open>handleTouchMove\<close> computes before it clamps the
  translation. The lower bound of the scale is the literal \<open>0.6\<close> here.
\<close>

definition pinchRaw :: "Rect \<Rightarrow> Transform \<Rightarrow> real \<Rightarrow> real \<Rightarrow> Touch list \<Rightarrow> Transform" where
  "pinchRaw r t lastDistance currentDistance ts =
     (let scaleFactor = currentDistance / lastDistance;
          newScale = min (max (tr_scale t * scaleFactor) 0.6) 3;
          centerX = (clientX (ts ! 0) + clientX (ts ! 1)) / 2 - r_left r;
          centerY = (clientY (ts ! 0) + clientY (ts ! 1)) / 2 - r_top r;
          rawNewX = centerX - (centerX - tr_x t) * (newScale / tr_scale t);
          rawNewY = centerY - (centerY - tr_y t) * (newScale / tr_scale t)
      in \<lparr>tr_x = rawNewX, tr_y = rawNewY, tr_scale = newScale\<rparr>)"

definition handleTouchMove :: "Rect option \<Rightarrow> MapState \<Rightarrow> TouchEvent \<Rightarrow> MapState" where
  "handleTouchMove rect st e =
     (if length (touches e) = 1 \<and> isDragging st then
        (let rawNewX = clientX (touches e ! 0) - pos_x (dragStart st);
             rawNewY = clientY (touches e ! 0) - pos_y (dragStart st);
             constrainedPosition =
               constrainToBounds rect rawNewX rawNewY (tr_scale (transform st))
         in st\<lparr>transform :=
                (transform st)\<lparr>tr_x := pos_x constrainedPosition,
                                tr_y := pos_y constrainedPosition\<rparr>\<rparr>)
      else if length (touches e) = 2 \<and> truthy (lastTouchDistance st) then
        (case rect of
           None \<Rightarrow> st
         | Some r \<Rightarrow>
             (case (lastTouchDistance st, getTouchDistance (touches e)) of
                (Some lastDistance, Some currentDistance) \<Rightarrow>
                  (if \<not> truthy (Some currentDistance) then st
                   else
                     (let raw = pinchRaw r (transform st) lastDistance currentDistance
                                  (touches e);
                          constrainedPosition =
                            constrainToBounds rect (tr_x raw) (tr_y raw) (tr_scale raw)
                      in st\<lparr>transform :=
                             \<lparr>tr_x = pos_x constrainedPosition,
                              tr_y = pos_y constrainedPosition,
                              tr_scale = tr_scale raw\<rparr>,
                            lastTouchDistance := Some currentDistance\<rparr>))
              | _ \<Rightarrow> st))
      else st)"

definition handleTouchEnd :: "MapState \<Rightarrow> MapState" where
  "handleTouchEnd st = st\<lparr>isDragging := False, lastTouchDistance := None\<rparr>"

section \<open>Projects, markers and cluster zoom\<close>

text \<open>
  Of a \<open>Project\<close> the map reads the identifier and the optional \<open>location\<close> with its
  percentage coordinates. The marker code tests \<open>typeof project.location.x === 'number'\<close>
  at run time, so \<open>loc_x\<close> is optional (\<open>None\<close>: present but not a number, or absent);
  \<open>loc_y\<close> is read without a test, at its declared type.
\<close>

record Location =
  loc_x :: "real option"
  loc_y :: real

record Project =
  proj_id :: string
  location :: "Location option"

text \<open>
  The position of an individual marker, as the render loop computes \<open>markerX\<close> and
  \<open>markerY\<close>: percentages of the 2638 by 1822 canvas, or the canvas center when there is
  no location data.
\<close>

definition markerPosition :: "Project \<Rightarrow> Position" where
  "markerPosition project =
     (case location project of
        None \<Rightarrow> \<lparr>pos_x = 2638 / 2, pos_y = 1822 / 2\<rparr>
      | Some loc \<Rightarrow>
          (case loc_x loc of
             None \<Rightarrow> \<lparr>pos_x = 2638 / 2, pos_y = 1822 / 2\<rparr>
           | Some lx \<Rightarrow> \<lparr>pos_x = (lx / 100) * 2638, pos_y = (loc_y loc / 100) * 1822\<rparr>))"

text \<open>
  The fields of a \<open>Cluster\<close> that the map component reads: \<open>id\<close>, the centroid \<open>x\<close>,
  \<open>y\<close> in canvas pixels, and \<open>projects\<close>.
\<close>

record Cluster =
  cl_id :: nat
  cl_x :: real
  cl_y :: real
  projects :: "Project list"

text \<open>
  \<open>handleClusterClick\<close>. A cluster of one project opens that project
  (\<open>handleMarkerClick\<close>) and leaves the transform alone.
\<close>

definition handleClusterClick :: "Rect option \<Rightarrow> MapState \<Rightarrow> Cluster \<Rightarrow> MapState" where
  "handleClusterClick rect st cluster =
     (if length (projects cluster) = 1 then st
      else
        (case rect of
           None \<Rightarrow> st
         | Some r \<Rightarrow>
             (let actualClusterX = cl_x cluster - mapOffsetX;
                  actualClusterY = cl_y cluster - mapOffsetY;
                  newScale = min (tr_scale (transform st) * 2.5) 3;
                  newX = r_width r / 2 - actualClusterX * newScale;
                  newY = r_height r / 2 - actualClusterY * newScale;
                  constrainedPosition = constrainToBounds rect newX newY newScale
              in st\<lparr>transform :=
                     \<lparr>tr_x = pos_x constrainedPosition,
                      tr_y = pos_y constrainedPosition,
                      tr_scale = newScale\<rparr>\<rparr>)))"

section \<open>The clustering engine\<close>

text \<open>
  Modelled from the spec: the module \<open>utils/markerClustering\<close> (\<open>clusterMarkers\<close>) is
  imported by the map component, but its source is not among the files at hand. The
  definitions of this section follow section 4.1 of the specification. Denormalization
  maps a percentage position to the 2638 by 1822 canvas; a position that is missing or
  outside \<open>[0,100]\<close> falls back to the canvas center (section 7).
\<close>

definition denormalize :: "Project \<Rightarrow> Position" where
  "denormalize p =
     (case location p of
        None \<Rightarrow> \<lparr>pos_x = mapWidth / 2, pos_y = mapHeight / 2\<rparr>
      | Some loc \<Rightarrow>
          (case loc_x loc of
             None \<Rightarrow> \<lparr>pos_x = mapWidth / 2, pos_y = mapHeight / 2\<rparr>
           | Some lx \<Rightarrow>
               (if 0 \<le> lx \<and> lx \<le> 100 \<and> 0 \<le> loc_y loc \<and> loc_y loc \<le> 100
                then \<lparr>pos_x = lx / 100 * mapWidth, pos_y = loc_y loc / 100 * mapHeight\<rparr>
                else \<lparr>pos_x = mapWidth / 2, pos_y = mapHeight / 2\<rparr>)))"

text \<open>Modelled from the spec: the Euclidean pixel distance between two positions.\<close>

definition distance :: "Position \<Rightarrow> Position \<Rightarrow> real" where
  "distance a b =
     sqrt ((pos_x a - pos_x b) * (pos_x a - pos_x b) + (pos_y a - pos_y b) * (pos_y a - pos_y b))"

text \<open>
  Modelled from the spec: the clustering radius, \<open>radius = baseRadius / scale\<close>. The
  specification leaves the base radius open; it is a parameter.
\<close>

definition clusteringRadius :: "real \<Rightarrow> real \<Rightarrow> real" where
  "clusteringRadius baseRadius s = baseRadius / s"

text \<open>
  Modelled from the spec: the index and value of the minimum of a list of distances; of
  two equal minima the earlier one wins (the tie-break of section 4.1).
\<close>

fun nearest :: "real list \<Rightarrow> (nat \<times> real) option" where
  "nearest [] = None"
| "nearest (d # ds) =
     (case nearest ds of
        None \<Rightarrow> Some (0, d)
      | Some (i, m) \<Rightarrow> (if d \<le> m then Some (0, d) else Some (Suc i, m)))"

text \<open>
  Modelled from the spec: the centroid of a member list, the arithmetic mean of the
  members' denormalized positions.
\<close>

definition centroid :: "Project list \<Rightarrow> Position" where
  "centroid ms =
     \<lparr>pos_x = sum_list (map (\<lambda>p. pos_x (denormalize p)) ms) / real (length ms),
      pos_y = sum_list (map (\<lambda>p. pos_y (denormalize p)) ms) / real (length ms)\<rparr>"

text \<open>
  Modelled from the spec: a cluster over a member list; its identifier is the index at
  which the cluster was formed.
\<close>

definition mkCluster :: "nat \<Rightarrow> Project list \<Rightarrow> Cluster" where
  "mkCluster i ms =
     \<lparr>cl_id = i, cl_x = pos_x (centroid ms), cl_y = pos_y (centroid ms), projects = ms\<rparr>"

text \<open>
  Modelled from the spec: one step of the greedy pass. The point joins the nearest
  existing cluster when that cluster's centroid is within the radius, and the centroid
  is recomputed; otherwise the point starts a new cluster at the end of the list.
\<close>

definition addPoint :: "real \<Rightarrow> Cluster list \<Rightarrow> Project \<Rightarrow> Cluster list" where
  "addPoint radius cs p =
     (case nearest (map (\<lambda>c. distance (denormalize p) \<lparr>pos_x = cl_x c, pos_y = cl_y c\<rparr>) cs) of
        None \<Rightarrow> cs @ [mkCluster (length cs) [p]]
      | Some (i, m) \<Rightarrow>
          (if m \<le> radius
           then cs[i := mkCluster (cl_id (cs ! i)) (projects (cs ! i) @ [p])]
           else cs @ [mkCluster (length cs) [p]]))"

text \<open>
  Modelled from the spec: the \<open>InvalidArgument\<close> condition with which the engine
  rejects a scale that is not positive.
\<close>

datatype error = InvalidArgument

text \<open>
  Modelled from the spec: \<open>cluster(points, scale)\<close>, with the base radius as a first
  parameter. A scale that is not positive fails with \<open>InvalidArgument\<close>; otherwise the
  points are taken in input order, starting from no cluster.
\<close>

definition cluster :: "real \<Rightarrow> Project list \<Rightarrow> real \<Rightarrow> error + Cluster list" where
  "cluster baseRadius points s =
     (if s \<le> 0 then Inl InvalidArgument
      else Inr (foldl (addPoint (clusteringRadius baseRadius s)) [] points))"

text \<open>
  Modelled from the spec: the number of clusters that a run returns, \<open>0\<close> for a run
  that failed.
\<close>

definition clusterCount :: "error + Cluster list \<Rightarrow> nat" where
  "clusterCount res = (case res of Inl _ \<Rightarrow> 0 | Inr cs \<Rightarrow> length cs)"

text \<open>
  Modelled from the spec: the premise of its singleton property, "the effective radius
  is smaller than the minimum pairwise distance among all points", over a list of
  positions.
\<close>

fun farApart :: "real \<Rightarrow> Position list \<Rightarrow> bool" where
  "farApart radius [] = True"
| "farApart radius (q # qs) = ((\<forall>q' \<in> set qs. radius < distance q q') \<and> farApart radius qs)"

text \<open>
  The scale of the initial centering in the words of the specification:
  \<open>max(0.6, 0.95 \<times> min(w/2183, h/1301))\<close>, where 2183 by 1301 are the effective canvas
  dimensions.
\<close>

definition fitScale_spec :: "real \<Rightarrow> real \<Rightarrow> real" where
  "fitScale_spec w h = max 0.6 (0.95 * min (w / 2183) (h / 1301))"

text \<open>
  Modelled from the spec: the engine over any radius law. Section 4.1 allows
  \<open>radius = baseRadius / scale\<close> "or equivalent monotonically-decreasing function of
  scale"; here the law is a parameter, and \<open>cluster baseRadius\<close> is the engine at the
  law \<open>clusteringRadius baseRadius\<close>.
\<close>

definition clusterWith :: "(real \<Rightarrow> real) \<Rightarrow> Project list \<Rightarrow> real \<Rightarrow> error + Cluster list" where
  "clusterWith radiusLaw points s =
     (if s \<le> 0 then Inl InvalidArgument
      else Inr (foldl (addPoint (radiusLaw s)) [] points))"

text \<open>
  Modelled from the spec: a second decreasing radius law,
  \<open>radius = baseRadius / scale\<^sup>2\<close>. With base radius 80 it gives the end-to-end scenario
  of section 8 (two clusters at scale 1, three singletons at scale 3), which
  \<open>baseRadius / scale\<close> does not.
\<close>

definition inverseSquareRadius :: "real \<Rightarrow> real \<Rightarrow> real" where
  "inverseSquareRadius baseRadius s = baseRadius / (s * s)"

text \<open>
  The zoom anchor in the words of the specification. A translation \<open>v\<close> at scale \<open>s\<close>
  maps the canvas coordinate \<open>(p - v) / s\<close> to the screen coordinate \<open>p\<close>
  (\<open>screen = logical \<times> scale + translate\<close>); the translation that keeps \<open>p\<close> fixed when
  the scale goes from \<open>s\<close> to \<open>s'\<close> is \<open>p - (p - v) * (s' / s)\<close>.
\<close>

definition canvasCoordinate_spec :: "real \<Rightarrow> real \<Rightarrow> real \<Rightarrow> real" where
  "canvasCoordinate_spec p v s = (p - v) / s"

definition anchoredTranslation_spec :: "real \<Rightarrow> real \<Rightarrow> real \<Rightarrow> real \<Rightarrow> real" where
  "anchoredTranslation_spec p v s s' = p - (p - v) * (s' / s)"

section \<open>Example data\<close>

text \<open>
  A project at a percentage position, and four projects on one horizontal line whose
  canvas abscissae are 100, 170, 52 and 218 pixels.
\<close>

abbreviation projectAt :: "string \<Rightarrow> real \<Rightarrow> real \<Rightarrow> Project" where
  "projectAt i px py \<equiv> \<lparr>proj_id = i, location = Some \<lparr>loc_x = Some px, loc_y = py\<rparr>\<rparr>"

abbreviation fourOnALine :: "Project list" where
  "fourOnALine \<equiv>
     [projectAt ''a'' (5000 / 1319) 50, projectAt ''b'' (8500 / 1319) 50,
      projectAt ''c'' (2600 / 1319) 50, projectAt ''d'' (10900 / 1319) 50]"

text \<open>The three points of the end-to-end scenario of the specification.\<close>

abbreviation section8Points :: "Project list" where
  "section8Points \<equiv>
     [projectAt ''a'' 10 10, projectAt ''b'' (21 / 2) (51 / 5), projectAt ''c'' 90 90]"

abbreviation viewport800x600 :: Rect where
  "viewport800x600 \<equiv> \<lparr>r_left = 0, r_top = 0, r_width = 800, r_height = 600\<rparr>"

section \<open>Boundary clamping: the formula and idempotence\<close>

lemmas canvas_defs = mapWidth_def mapHeight_def mapOffsetX_def mapOffsetY_def

lemma constrainToBounds_Some:
  "constrainToBounds (Some r) px py s =
     \<lparr>pos_x = min (max px (r_width r - 2638 * s)) (455 * s),
      pos_y = min (max py (r_height r - 1822 * s)) (521 * s)\<rparr>"
  by (simp add: constrainToBounds_def canvas_defs)

lemma constrainToBounds_None: "constrainToBounds None px py s = \<lparr>pos_x = px, pos_y = py\<rparr>"
  by (simp add: constrainToBounds_def)

text \<open>
  C3, as the code has it. With a measured viewport of width \<open>w\<close> and height \<open>h\<close>,
  \<open>constrainToBounds\<close> returns \<open>min (max x (w - 2638 * scale)) (455 * scale)\<close> and
  \<open>min (max y (h - 1822 * scale)) (521 * scale)\<close>. When \<open>w - 2638 * scale \<le> 455 * scale\<close>
  this is \<open>x\<close> clamped into the interval between the two, and likewise for \<open>y\<close> when
  \<open>h - 1822 * scale \<le> 521 * scale\<close>. When the lower end is above the upper end, the
  result is the upper end, \<open>455 * scale\<close> or \<open>521 * scale\<close>, whatever the position was.
\<close>

theorem constrainToBounds_clamps:
  "constrainToBounds (Some r) px py s =
     \<lparr>pos_x = min (max px (r_width r - 2638 * s)) (455 * s),
      pos_y = min (max py (r_height r - 1822 * s)) (521 * s)\<rparr>
   \<and> (r_width r - 2638 * s \<le> 455 * s \<longrightarrow>
        pos_x (constrainToBounds (Some r) px py s) = clamp_spec px (r_width r - 2638 * s) (455 * s)
        \<and> r_width r - 2638 * s \<le> pos_x (constrainToBounds (Some r) px py s)
        \<and> pos_x (constrainToBounds (Some r) px py s) \<le> 455 * s)
   \<and> (r_height r - 1822 * s \<le> 521 * s \<longrightarrow>
        pos_y (constrainToBounds (Some r) px py s) = clamp_spec py (r_height r - 1822 * s) (521 * s)
        \<and> r_height r - 1822 * s \<le> pos_y (constrainToBounds (Some r) px py s)
        \<and> pos_y (constrainToBounds (Some r) px py s) \<le> 521 * s)
   \<and> (455 * s < r_width r - 2638 * s \<longrightarrow>
        pos_x (constrainToBounds (Some r) px py s) = 455 * s)
   \<and> (521 * s < r_height r - 1822 * s \<longrightarrow>
        pos_y (constrainToBounds (Some r) px py s) = 521 * s)"
  by (auto simp: constrainToBounds_Some clamp_spec_def min_def max_def)

text \<open>
  An 800 by 600 viewport at scale 1: a position right of and above the allowed rectangle
  is brought back to its corner \<open>(455, -1222)\<close>. A 1920 by 1500 viewport at scale 0.6:
  both intervals are empty, and the position goes to their upper ends \<open>(273, 312.6)\<close>.
\<close>

theorem constrainToBounds_clamps_witness:
  "(800::real) - 2638 * 1 \<le> 455 * 1 \<and> (600::real) - 1822 * 1 \<le> 521 * 1
   \<and> constrainToBounds (Some viewport800x600) 500 (- 2000) 1 = \<lparr>pos_x = 455, pos_y = - 1222\<rparr>
   \<and> clamp_spec 500 (800 - 2638 * 1) (455 * 1) = 455
   \<and> clamp_spec (- 2000) (600 - 1822 * 1) (521 * 1) = - 1222
   \<and> (455::real) * (3 / 5) < 1920 - 2638 * (3 / 5)
   \<and> (521::real) * (3 / 5) < 1500 - 1822 * (3 / 5)
   \<and> constrainToBounds (Some \<lparr>r_left = 0, r_top = 0, r_width = 1920, r_height = 1500\<rparr>)
        300 0 (3 / 5)
       = \<lparr>pos_x = 273, pos_y = 1563 / 5\<rparr>"
  using
    constrainToBounds_clamps [of viewport800x600 500 "- 2000" 1]
    constrainToBounds_clamps
      [of "\<lparr>r_left = 0, r_top = 0, r_width = 1920, r_height = 1500\<rparr>" 300 0 "3 / 5"]
  by (simp add: clamp_spec_def)

text \<open>
  C3 as stated fails: in a 2560 by 1080 viewport at the scale \<open>1026/1301\<close> of the
  initial centering, the centered abscissa is returned as \<open>455 * 1026/1301\<close>, which is
  below the lower end \<open>2560 - 2638 * 1026/1301\<close> of the interval and is not the clamp of
  the specification.
\<close>

theorem constrainToBounds_below_lower_end:
  "pos_x (constrainToBounds (Some \<lparr>r_left = 0, r_top = 0, r_width = 2560, r_height = 1080\<rparr>)
       ((2560 - 2183 * (1026 / 1301)) / 2) ((1080 - 1301 * (1026 / 1301)) / 2) (1026 / 1301))
     = 455 * (1026 / 1301)
   \<and> pos_x (constrainToBounds (Some \<lparr>r_left = 0, r_top = 0, r_width = 2560, r_height = 1080\<rparr>)
       ((2560 - 2183 * (1026 / 1301)) / 2) ((1080 - 1301 * (1026 / 1301)) / 2) (1026 / 1301))
     < 2560 - 2638 * (1026 / 1301)
   \<and> pos_x (constrainToBounds (Some \<lparr>r_left = 0, r_top = 0, r_width = 2560, r_height = 1080\<rparr>)
       ((2560 - 2183 * (1026 / 1301)) / 2) ((1080 - 1301 * (1026 / 1301)) / 2) (1026 / 1301))
     \<noteq> clamp_spec ((2560 - 2183 * (1026 / 1301)) / 2)
         (2560 - 2638 * (1026 / 1301)) (455 * (1026 / 1301))"
  by (simp add: constrainToBounds_Some clamp_spec_def)

text \<open>
  C7. \<open>constrainToBounds\<close> is idempotent: applied to the position it returned, at the
  same scale and with the same viewport measurement (or none), it returns that position.
\<close>

theorem constrainToBounds_idempotent:
  "constrainToBounds rect
     (pos_x (constrainToBounds rect px py s)) (pos_y (constrainToBounds rect px py s)) s
   = constrainToBounds rect px py s"
  by (cases rect) (auto simp: constrainToBounds_Some constrainToBounds_None min_def max_def)

section \<open>Initial centering and reset\<close>

lemma fitScale_fold:
  "max (min (w / (mapWidth - mapOffsetX)) (h / (mapHeight - mapOffsetY)) * 0.95) 0.6
     = fitScale_spec w h"
  by (simp add: canvas_defs fitScale_spec_def max.commute mult.commute)

lemma centerMap_Some:
  "centerMap (Some r) st =
     st\<lparr>transform :=
         \<lparr>tr_x = pos_x (constrainToBounds (Some r)
                   ((r_width r - 2183 * fitScale_spec (r_width r) (r_height r)) / 2)
                   ((r_height r - 1301 * fitScale_spec (r_width r) (r_height r)) / 2)
                   (fitScale_spec (r_width r) (r_height r))),
          tr_y = pos_y (constrainToBounds (Some r)
                   ((r_width r - 2183 * fitScale_spec (r_width r) (r_height r)) / 2)
                   ((r_height r - 1301 * fitScale_spec (r_width r) (r_height r)) / 2)
                   (fitScale_spec (r_width r) (r_height r))),
          tr_scale = fitScale_spec (r_width r) (r_height r)\<rparr>\<rparr>"
  unfolding centerMap_def Let_def option.case fitScale_fold
  by (simp add: canvas_defs)

lemma resetButton_eq_centerMap: "resetButton_onClick rect st = centerMap rect st"
  by (simp add: resetButton_onClick_def centerMap_def)

text \<open>
  C4. With a measured viewport of width \<open>w\<close> and height \<open>h\<close>, the initial centering and
  the reset button set the scale to \<open>max(0.6, 0.95 * min(w/2183, h/1301))\<close> and the
  translation to the boundary clamp of the centered position
  \<open>((w - 2183 * scale)/2, (h - 1301 * scale)/2)\<close>. The clamp leaves the centered position
  as it is when \<open>w \<le> 3093 * scale\<close> and \<open>h \<le> 2343 * scale\<close>; a wider viewport gets
  \<open>x = 455 * scale\<close>, a taller one \<open>y = 521 * scale\<close>.
\<close>

theorem centerMap_scale_and_center:
  "tr_scale (transform (centerMap (Some r) st)) = fitScale_spec (r_width r) (r_height r)
   \<and> \<lparr>pos_x = tr_x (transform (centerMap (Some r) st)),
       pos_y = tr_y (transform (centerMap (Some r) st))\<rparr>
     = constrainToBounds (Some r)
         ((r_width r - 2183 * fitScale_spec (r_width r) (r_height r)) / 2)
         ((r_height r - 1301 * fitScale_spec (r_width r) (r_height r)) / 2)
         (fitScale_spec (r_width r) (r_height r))
   \<and> (r_width r \<le> 3093 * fitScale_spec (r_width r) (r_height r) \<longrightarrow>
        tr_x (transform (centerMap (Some r) st))
          = (r_width r - 2183 * fitScale_spec (r_width r) (r_height r)) / 2)
   \<and> (r_height r \<le> 2343 * fitScale_spec (r_width r) (r_height r) \<longrightarrow>
        tr_y (transform (centerMap (Some r) st))
          = (r_height r - 1301 * fitScale_spec (r_width r) (r_height r)) / 2)
   \<and> (3093 * fitScale_spec (r_width r) (r_height r) < r_width r \<longrightarrow>
        tr_x (transform (centerMap (Some r) st)) = 455 * fitScale_spec (r_width r) (r_height r))
   \<and> (2343 * fitScale_spec (r_width r) (r_height r) < r_height r \<longrightarrow>
        tr_y (transform (centerMap (Some r) st)) = 521 * fitScale_spec (r_width r) (r_height r))
   \<and> resetButton_onClick (Some r) st = centerMap (Some r) st"
proof -
  let ?S = "fitScale_spec (r_width r) (r_height r)"
  have a: "r_width r \<le> 3093 * ?S \<Longrightarrow>
      min (max ((r_width r - 2183 * ?S) / 2) (r_width r - 2638 * ?S)) (455 * ?S)
        = (r_width r - 2183 * ?S) / 2"
    by (simp add: min_def max_def)
  have b: "r_height r \<le> 2343 * ?S \<Longrightarrow>
      min (max ((r_height r - 1301 * ?S) / 2) (r_height r - 1822 * ?S)) (521 * ?S)
        = (r_height r - 1301 * ?S) / 2"
    by (simp add: min_def max_def)
  have c: "3093 * ?S < r_width r \<Longrightarrow>
      min (max ((r_width r - 2183 * ?S) / 2) (r_width r - 2638 * ?S)) (455 * ?S) = 455 * ?S"
    by (simp add: min_def max_def)
  have d: "2343 * ?S < r_height r \<Longrightarrow>
      min (max ((r_height r - 1301 * ?S) / 2) (r_height r - 1822 * ?S)) (521 * ?S) = 521 * ?S"
    by (simp add: min_def max_def)
  show ?thesis
    using a b c d
    by (simp add: centerMap_Some constrainToBounds_Some resetButton_eq_centerMap)
qed

lemma fitScale_800_600: "fitScale_spec 800 600 = 0.6"
  by (simp add: fitScale_spec_def)

lemma fitScale_2560_1080: "fitScale_spec 2560 1080 = 1026 / 1301"
  by (simp add: fitScale_spec_def)

text \<open>
  The scenario of the specification: an 800 by 600 viewport gives the scale 0.6 and the
  centered translation, which the clamp leaves alone. A 2560 by 1080 viewport gives the
  scale \<open>1026/1301\<close>, and the clamp moves \<open>x\<close> to \<open>455 * 1026/1301\<close>.
\<close>

theorem centerMap_scale_and_center_witness:
  "(800::real) \<le> 3093 * fitScale_spec 800 600 \<and> (600::real) \<le> 2343 * fitScale_spec 800 600
   \<and> transform (centerMap (Some viewport800x600) initialState)
       = \<lparr>tr_x = (800 - 2183 * 0.6) / 2, tr_y = (600 - 1301 * 0.6) / 2, tr_scale = 0.6\<rparr>
   \<and> 3093 * fitScale_spec 2560 1080 < 2560 \<and> (1080::real) \<le> 2343 * fitScale_spec 2560 1080
   \<and> transform (centerMap (Some \<lparr>r_left = 0, r_top = 0, r_width = 2560, r_height = 1080\<rparr>)
        initialState)
       = \<lparr>tr_x = 455 * (1026 / 1301), tr_y = (1080 - 1301 * (1026 / 1301)) / 2,
          tr_scale = 1026 / 1301\<rparr>"
  using
    centerMap_scale_and_center [of viewport800x600 initialState]
    centerMap_scale_and_center
      [of "\<lparr>r_left = 0, r_top = 0, r_width = 2560, r_height = 1080\<rparr>" initialState]
  by (simp add: fitScale_800_600 fitScale_2560_1080 initialState_def centerMap_Some
      constrainToBounds_Some)

section \<open>Panning\<close>

lemma handleMouseMove_dragging:
  "isDragging st \<Longrightarrow>
   transform (handleMouseMove rect st e) =
     \<lparr>tr_x = pos_x (constrainToBounds rect (clientX e - pos_x (dragStart st))
                      (clientY e - pos_y (dragStart st)) (tr_scale (transform st))),
      tr_y = pos_y (constrainToBounds rect (clientX e - pos_x (dragStart st))
                      (clientY e - pos_y (dragStart st)) (tr_scale (transform st))),
      tr_scale = tr_scale (transform st)\<rparr>"
  by (simp add: handleMouseMove_def Let_def)

lemma handleMouseMove_scale:
  "tr_scale (transform (handleMouseMove rect st e)) = tr_scale (transform st)"
  by (simp add: handleMouseMove_def Let_def)

lemma handleTouchMove_dragging:
  "isDragging st \<Longrightarrow> length (touches e) = 1 \<Longrightarrow>
   transform (handleTouchMove rect st e) =
     \<lparr>tr_x = pos_x (constrainToBounds rect (clientX (touches e ! 0) - pos_x (dragStart st))
                      (clientY (touches e ! 0) - pos_y (dragStart st)) (tr_scale (transform st))),
      tr_y = pos_y (constrainToBounds rect (clientX (touches e ! 0) - pos_x (dragStart st))
                      (clientY (touches e ! 0) - pos_y (dragStart st)) (tr_scale (transform st))),
      tr_scale = tr_scale (transform st)\<rparr>"
  by (simp add: handleTouchMove_def Let_def)

lemma handleTouchMove_one_scale:
  "length (touches e) = 1 \<Longrightarrow>
   tr_scale (transform (handleTouchMove rect st e)) = tr_scale (transform st)"
  by (simp add: handleTouchMove_def Let_def)

lemma handleMouseDown_drag:
  "\<not> targetOnMarker e0 \<Longrightarrow>
   isDragging (handleMouseDown st e0) \<and>
   transform (handleMouseDown st e0) = transform st \<and>
   dragStart (handleMouseDown st e0) =
     \<lparr>pos_x = clientX e0 - tr_x (transform st), pos_y = clientY e0 - tr_y (transform st)\<rparr>"
  by (simp add: handleMouseDown_def)

lemma handleTouchStart_drag:
  "\<not> touchOnMarker e0 \<Longrightarrow> length (touches e0) = 1 \<Longrightarrow>
   isDragging (handleTouchStart st e0) \<and>
   transform (handleTouchStart st e0) = transform st \<and>
   dragStart (handleTouchStart st e0) =
     \<lparr>pos_x = clientX (touches e0 ! 0) - tr_x (transform st),
      pos_y = clientY (touches e0 ! 0) - tr_y (transform st)\<rparr>"
  by (simp add: handleTouchStart_def)

text \<open>
  C10. Panning never changes the scale. A mouse move, and a touch move with one finger,
  leave the scale as it was; while dragging, the new translation is
  \<open>constrainToBounds\<close> of the dragged position at that scale. Taken from the press
  (\<open>handleMouseDown\<close>, \<open>handleTouchStart\<close>), the dragged position is the translation at
  the press plus the pointer's displacement.
\<close>

theorem panning_keeps_scale:
  "tr_scale (transform (handleMouseMove rect st e)) = tr_scale (transform st)
   \<and> (isDragging st \<longrightarrow>
        \<lparr>pos_x = tr_x (transform (handleMouseMove rect st e)),
         pos_y = tr_y (transform (handleMouseMove rect st e))\<rparr>
        = constrainToBounds rect (clientX e - pos_x (dragStart st))
            (clientY e - pos_y (dragStart st)) (tr_scale (transform st)))
   \<and> (\<not> targetOnMarker e0 \<longrightarrow>
        transform (handleMouseMove rect (handleMouseDown st e0) e) =
          \<lparr>tr_x = pos_x (constrainToBounds rect (tr_x (transform st) + (clientX e - clientX e0))
                          (tr_y (transform st) + (clientY e - clientY e0)) (tr_scale (transform st))),
           tr_y = pos_y (constrainToBounds rect (tr_x (transform st) + (clientX e - clientX e0))
                          (tr_y (transform st) + (clientY e - clientY e0)) (tr_scale (transform st))),
           tr_scale = tr_scale (transform st)\<rparr>)
   \<and> (length (touches te) = 1 \<longrightarrow>
        tr_scale (transform (handleTouchMove rect st te)) = tr_scale (transform st)
        \<and> (isDragging st \<longrightarrow>
             \<lparr>pos_x = tr_x (transform (handleTouchMove rect st te)),
              pos_y = tr_y (transform (handleTouchMove rect st te))\<rparr>
             = constrainToBounds rect (clientX (touches te ! 0) - pos_x (dragStart st))
                 (clientY (touches te ! 0) - pos_y (dragStart st)) (tr_scale (transform st))))
   \<and> (length (touches te) = 1 \<and> length (touches te0) = 1 \<and> \<not> touchOnMarker te0 \<longrightarrow>
        transform (handleTouchMove rect (handleTouchStart st te0) te) =
          \<lparr>tr_x = pos_x (constrainToBounds rect
                          (tr_x (transform st) + (clientX (touches te ! 0) - clientX (touches te0 ! 0)))
                          (tr_y (transform st) + (clientY (touches te ! 0) - clientY (touches te0 ! 0)))
                          (tr_scale (transform st))),
           tr_y = pos_y (constrainToBounds rect
                          (tr_x (transform st) + (clientX (touches te ! 0) - clientX (touches te0 ! 0)))
                          (tr_y (transform st) + (clientY (touches te ! 0) - clientY (touches te0 ! 0)))
                          (tr_scale (transform st))),
           tr_scale = tr_scale (transform st)\<rparr>)"
proof -
  have r: "\<And>a b c :: real. a - (b - c) = c + (a - b)"
    by simp
  show ?thesis
    by (simp add: r handleMouseMove_scale handleMouseMove_dragging handleTouchMove_one_scale
        handleTouchMove_dragging handleMouseDown_drag handleTouchStart_drag)
qed

text \<open>
  From the initial state in an 800 by 600 viewport: a press at \<open>(100, 100)\<close> and a move
  to \<open>(130, 90)\<close>, by mouse and by one finger, give the translation \<open>(30, -10)\<close> at scale 1.
\<close>

theorem panning_keeps_scale_witness:
  "\<not> targetOnMarker \<lparr>clientX = 100, clientY = 100, targetOnMarker = False\<rparr>
   \<and> isDragging (handleMouseDown initialState
        \<lparr>clientX = 100, clientY = 100, targetOnMarker = False\<rparr>)
   \<and> length (touches \<lparr>touches = [\<lparr>clientX = 130, clientY = 90\<rparr>], touchOnMarker = False\<rparr>) = 1
   \<and> transform (handleMouseMove (Some viewport800x600)
        (handleMouseDown initialState \<lparr>clientX = 100, clientY = 100, targetOnMarker = False\<rparr>)
        \<lparr>clientX = 130, clientY = 90, targetOnMarker = False\<rparr>)
       = \<lparr>tr_x = 30, tr_y = - 10, tr_scale = 1\<rparr>
   \<and> transform (handleTouchMove (Some viewport800x600)
        (handleTouchStart initialState
           \<lparr>touches = [\<lparr>clientX = 100, clientY = 100\<rparr>], touchOnMarker = False\<rparr>)
        \<lparr>touches = [\<lparr>clientX = 130, clientY = 90\<rparr>], touchOnMarker = False\<rparr>)
       = \<lparr>tr_x = 30, tr_y = - 10, tr_scale = 1\<rparr>"
  using panning_keeps_scale
    [where rect = "Some viewport800x600" and st = initialState
       and e = "\<lparr>clientX = 130, clientY = 90, targetOnMarker = False\<rparr>"
       and ?e0.0 = "\<lparr>clientX = 100, clientY = 100, targetOnMarker = False\<rparr>"
       and te = "\<lparr>touches = [\<lparr>clientX = 130, clientY = 90\<rparr>], touchOnMarker = False\<rparr>"
       and ?te0.0 = "\<lparr>touches = [\<lparr>clientX = 100, clientY = 100\<rparr>], touchOnMarker = False\<rparr>"]
  by (simp add: initialState_def constrainToBounds_Some handleMouseDown_def)

section \<open>Zoom anchored at the focal point\<close>

lemma absoluteMinZoom_eq:
  "absoluteMinZoom r = max (min (r_width r / 2183) (r_height r / 1301) * 0.9) 0.6"
  by (simp add: absoluteMinZoom_def canvas_defs)

lemma absoluteMinZoom_floor: "0.6 \<le> absoluteMinZoom r"
  by (simp add: absoluteMinZoom_eq)

lemma wheelRaw_scale:
  "tr_scale (wheelRaw r t e) =
     min (max (tr_scale t * (if deltaY e > 0 then 0.9 else 1.1)) (absoluteMinZoom r)) 3"
  by (simp add: wheelRaw_def Let_def)

lemma wheelRaw_scale_bounds:
  "0.6 \<le> tr_scale (wheelRaw r t e) \<and> tr_scale (wheelRaw r t e) \<le> 3
   \<and> min (absoluteMinZoom r) 3 \<le> tr_scale (wheelRaw r t e)"
  using absoluteMinZoom_floor [of r] unfolding wheelRaw_scale by (simp add: min_def max_def)

lemma pinchRaw_scale:
  "tr_scale (pinchRaw r t l c ts) = min (max (tr_scale t * (c / l)) 0.6) 3"
  by (simp add: pinchRaw_def Let_def)

lemma pinchRaw_scale_bounds:
  "0.6 \<le> tr_scale (pinchRaw r t l c ts) \<and> tr_scale (pinchRaw r t l c ts) \<le> 3"
  unfolding pinchRaw_scale by (simp add: min_def max_def)

lemma anchor_fixed:
  fixes p :: real
  assumes "s \<noteq> 0" and "s' \<noteq> 0"
  shows "(p - (p - (p - a) * (s' / s))) / s' = (p - a) / s"
  using assms by (simp add: field_simps)

lemma wheelRaw_xy:
  "tr_x (wheelRaw r t e) =
     (clientX e - r_left r)
       - ((clientX e - r_left r) - tr_x t) * (tr_scale (wheelRaw r t e) / tr_scale t)
   \<and> tr_y (wheelRaw r t e) =
     (clientY e - r_top r)
       - ((clientY e - r_top r) - tr_y t) * (tr_scale (wheelRaw r t e) / tr_scale t)"
  by (simp add: wheelRaw_def Let_def)

lemma pinchRaw_xy:
  "tr_x (pinchRaw r t l c ts) =
     ((clientX (ts ! 0) + clientX (ts ! 1)) / 2 - r_left r)
       - (((clientX (ts ! 0) + clientX (ts ! 1)) / 2 - r_left r) - tr_x t)
           * (tr_scale (pinchRaw r t l c ts) / tr_scale t)
   \<and> tr_y (pinchRaw r t l c ts) =
     ((clientY (ts ! 0) + clientY (ts ! 1)) / 2 - r_top r)
       - (((clientY (ts ! 0) + clientY (ts ! 1)) / 2 - r_top r) - tr_y t)
           * (tr_scale (pinchRaw r t l c ts) / tr_scale t)"
  by (simp add: pinchRaw_def Let_def)

lemma getTouchDistance_level:
  "getTouchDistance [\<lparr>clientX = a, clientY = c\<rparr>, \<lparr>clientX = b, clientY = c\<rparr>] = Some \<bar>a - b\<bar>"
  by (simp add: getTouchDistance_def)

lemma handleWheel_transform:
  "transform (handleWheel (Some r) st e) =
     \<lparr>tr_x = pos_x (constrainToBounds (Some r) (tr_x (wheelRaw r (transform st) e))
                      (tr_y (wheelRaw r (transform st) e)) (tr_scale (wheelRaw r (transform st) e))),
      tr_y = pos_y (constrainToBounds (Some r) (tr_x (wheelRaw r (transform st) e))
                      (tr_y (wheelRaw r (transform st) e)) (tr_scale (wheelRaw r (transform st) e))),
      tr_scale = tr_scale (wheelRaw r (transform st) e)\<rparr>"
  by (simp add: handleWheel_def Let_def)

lemma handleTouchMove_pinch_transform:
  assumes "length (touches e) = 2" and "lastTouchDistance st = Some l" and "l \<noteq> 0"
    and "getTouchDistance (touches e) = Some c" and "c \<noteq> 0"
  shows "transform (handleTouchMove (Some r) st e) =
     \<lparr>tr_x = pos_x (constrainToBounds (Some r) (tr_x (pinchRaw r (transform st) l c (touches e)))
                      (tr_y (pinchRaw r (transform st) l c (touches e)))
                      (tr_scale (pinchRaw r (transform st) l c (touches e)))),
      tr_y = pos_y (constrainToBounds (Some r) (tr_x (pinchRaw r (transform st) l c (touches e)))
                      (tr_y (pinchRaw r (transform st) l c (touches e)))
                      (tr_scale (pinchRaw r (transform st) l c (touches e)))),
      tr_scale = tr_scale (pinchRaw r (transform st) l c (touches e))\<rparr>"
  using assms by (simp add: handleTouchMove_def truthy_def Let_def)

lemma position_eta: "\<lparr>pos_x = pos_x q, pos_y = pos_y q\<rparr> = q"
  by simp

lemma anchored_zoom:
  assumes "0 < s" and "0.6 \<le> s'"
  shows "canvasCoordinate_spec p (anchoredTranslation_spec p v s s') s' = canvasCoordinate_spec p v s"
  using assms unfolding canvasCoordinate_spec_def anchoredTranslation_spec_def
  by (intro anchor_fixed) simp_all

text \<open>The wheel handler stores the boundary clamp of the anchored translation.\<close>

lemma handleWheel_anchored:
  "\<lparr>pos_x = tr_x (transform (handleWheel (Some r) st e)),
    pos_y = tr_y (transform (handleWheel (Some r) st e))\<rparr>
   = constrainToBounds (Some r)
       (anchoredTranslation_spec (clientX e - r_left r) (tr_x (transform st))
          (tr_scale (transform st)) (tr_scale (transform (handleWheel (Some r) st e))))
       (anchoredTranslation_spec (clientY e - r_top r) (tr_y (transform st))
          (tr_scale (transform st)) (tr_scale (transform (handleWheel (Some r) st e))))
       (tr_scale (transform (handleWheel (Some r) st e)))"
  using wheelRaw_xy [of r "transform st" e]
  by (simp add: handleWheel_transform position_eta anchoredTranslation_spec_def)

text \<open>So does the pinch branch of the touch handler, around the midpoint of the touches.\<close>

lemma handleTouchMove_anchored:
  assumes "length (touches te) = 2" and "lastTouchDistance st = Some l" and "l \<noteq> 0"
    and "getTouchDistance (touches te) = Some c" and "c \<noteq> 0"
  shows "tr_scale (transform (handleTouchMove (Some r) st te))
           = min (max (tr_scale (transform st) * (c / l)) 0.6) 3"
    and "\<lparr>pos_x = tr_x (transform (handleTouchMove (Some r) st te)),
          pos_y = tr_y (transform (handleTouchMove (Some r) st te))\<rparr>
         = constrainToBounds (Some r)
             (anchoredTranslation_spec
                ((clientX (touches te ! 0) + clientX (touches te ! 1)) / 2 - r_left r)
                (tr_x (transform st)) (tr_scale (transform st))
                (tr_scale (transform (handleTouchMove (Some r) st te))))
             (anchoredTranslation_spec
                ((clientY (touches te ! 0) + clientY (touches te ! 1)) / 2 - r_top r)
                (tr_y (transform st)) (tr_scale (transform st))
                (tr_scale (transform (handleTouchMove (Some r) st te))))
             (tr_scale (transform (handleTouchMove (Some r) st te)))"
proof -
  let ?p = "pinchRaw r (transform st) l c (touches te)"
  have tr: "transform (handleTouchMove (Some r) st te) =
     \<lparr>tr_x = pos_x (constrainToBounds (Some r) (tr_x ?p) (tr_y ?p) (tr_scale ?p)),
      tr_y = pos_y (constrainToBounds (Some r) (tr_x ?p) (tr_y ?p) (tr_scale ?p)),
      tr_scale = tr_scale ?p\<rparr>"
    using assms by (rule handleTouchMove_pinch_transform)
  show "tr_scale (transform (handleTouchMove (Some r) st te))
           = min (max (tr_scale (transform st) * (c / l)) 0.6) 3"
    by (simp add: tr pinchRaw_scale)
  show "\<lparr>pos_x = tr_x (transform (handleTouchMove (Some r) st te)),
          pos_y = tr_y (transform (handleTouchMove (Some r) st te))\<rparr>
         = constrainToBounds (Some r)
             (anchoredTranslation_spec
                ((clientX (touches te ! 0) + clientX (touches te ! 1)) / 2 - r_left r)
                (tr_x (transform st)) (tr_scale (transform st))
                (tr_scale (transform (handleTouchMove (Some r) st te))))
             (anchoredTranslation_spec
                ((clientY (touches te ! 0) + clientY (touches te ! 1)) / 2 - r_top r)
                (tr_y (transform st)) (tr_scale (transform st))
                (tr_scale (transform (handleTouchMove (Some r) st te))))
             (tr_scale (transform (handleTouchMove (Some r) st te)))"
    using pinchRaw_xy [of r "transform st" l c "touches te"]
    by (simp add: tr position_eta anchoredTranslation_spec_def)
qed

text \<open>
  C2. Let the transform have a positive scale (in particular one within the bounds) and
  the viewport be measured. The wheel handler sets the new scale \<open>scale'\<close> and stores, as
  translation, \<open>constrainToBounds\<close> of the raw translation
  \<open>x' = p_x - (p_x - x) * (scale' / scale)\<close>, \<open>y'\<close> likewise, where \<open>p\<close> is the cursor
  relative to the viewport; under \<open>(scale', x', y')\<close> the canvas coordinate that maps to
  \<open>p\<close> is the one that mapped to \<open>p\<close> under \<open>(scale, x, y)\<close>. The pinch branch of the
  touch handler, taken with two touches that do not coincide and a recorded non-zero
  distance, does the same with \<open>p\<close> the midpoint of the two touches.
\<close>

theorem zoom_handlers_anchor_fixed:
  assumes "0 < tr_scale (transform st)"
  shows
    "tr_scale (transform (handleWheel (Some r) st e))
       = min (max (tr_scale (transform st) * (if deltaY e > 0 then 0.9 else 1.1))
                (absoluteMinZoom r)) 3
     \<and> \<lparr>pos_x = tr_x (transform (handleWheel (Some r) st e)),
         pos_y = tr_y (transform (handleWheel (Some r) st e))\<rparr>
       = constrainToBounds (Some r)
           (anchoredTranslation_spec (clientX e - r_left r) (tr_x (transform st))
              (tr_scale (transform st)) (tr_scale (transform (handleWheel (Some r) st e))))
           (anchoredTranslation_spec (clientY e - r_top r) (tr_y (transform st))
              (tr_scale (transform st)) (tr_scale (transform (handleWheel (Some r) st e))))
           (tr_scale (transform (handleWheel (Some r) st e)))
     \<and> canvasCoordinate_spec (clientX e - r_left r)
          (anchoredTranslation_spec (clientX e - r_left r) (tr_x (transform st))
             (tr_scale (transform st)) (tr_scale (transform (handleWheel (Some r) st e))))
          (tr_scale (transform (handleWheel (Some r) st e)))
       = canvasCoordinate_spec (clientX e - r_left r) (tr_x (transform st)) (tr_scale (transform st))
     \<and> canvasCoordinate_spec (clientY e - r_top r)
          (anchoredTranslation_spec (clientY e - r_top r) (tr_y (transform st))
             (tr_scale (transform st)) (tr_scale (transform (handleWheel (Some r) st e))))
          (tr_scale (transform (handleWheel (Some r) st e)))
       = canvasCoordinate_spec (clientY e - r_top r) (tr_y (transform st)) (tr_scale (transform st))
     \<and> (length (touches te) = 2 \<and> lastTouchDistance st = Some l \<and> l \<noteq> 0
          \<and> getTouchDistance (touches te) = Some c \<and> c \<noteq> 0 \<longrightarrow>
          tr_scale (transform (handleTouchMove (Some r) st te))
            = min (max (tr_scale (transform st) * (c / l)) 0.6) 3
          \<and> \<lparr>pos_x = tr_x (transform (handleTouchMove (Some r) st te)),
              pos_y = tr_y (transform (handleTouchMove (Some r) st te))\<rparr>
            = constrainToBounds (Some r)
                (anchoredTranslation_spec
                   ((clientX (touches te ! 0) + clientX (touches te ! 1)) / 2 - r_left r)
                   (tr_x (transform st)) (tr_scale (transform st))
                   (tr_scale (transform (handleTouchMove (Some r) st te))))
                (anchoredTranslation_spec
                   ((clientY (touches te ! 0) + clientY (touches te ! 1)) / 2 - r_top r)
                   (tr_y (transform st)) (tr_scale (transform st))
                   (tr_scale (transform (handleTouchMove (Some r) st te))))
                (tr_scale (transform (handleTouchMove (Some r) st te)))
          \<and> canvasCoordinate_spec
               ((clientX (touches te ! 0) + clientX (touches te ! 1)) / 2 - r_left r)
               (anchoredTranslation_spec
                  ((clientX (touches te ! 0) + clientX (touches te ! 1)) / 2 - r_left r)
                  (tr_x (transform st)) (tr_scale (transform st))
                  (tr_scale (transform (handleTouchMove (Some r) st te))))
               (tr_scale (transform (handleTouchMove (Some r) st te)))
            = canvasCoordinate_spec
                ((clientX (touches te ! 0) + clientX (touches te ! 1)) / 2 - r_left r)
                (tr_x (transform st)) (tr_scale (transform st))
          \<and> canvasCoordinate_spec
               ((clientY (touches te ! 0) + clientY (touches te ! 1)) / 2 - r_top r)
               (anchoredTranslation_spec
                  ((clientY (touches te ! 0) + clientY (touches te ! 1)) / 2 - r_top r)
                  (tr_y (transform st)) (tr_scale (transform st))
                  (tr_scale (transform (handleTouchMove (Some r) st te))))
               (tr_scale (transform (handleTouchMove (Some r) st te)))
            = canvasCoordinate_spec
                ((clientY (touches te ! 0) + clientY (touches te ! 1)) / 2 - r_top r)
                (tr_y (transform st)) (tr_scale (transform st)))"
proof -
  have w1: "tr_scale (transform (handleWheel (Some r) st e))
       = min (max (tr_scale (transform st) * (if deltaY e > 0 then 0.9 else 1.1))
                (absoluteMinZoom r)) 3"
    by (simp add: handleWheel_transform wheelRaw_scale)
  have wb: "0.6 \<le> tr_scale (transform (handleWheel (Some r) st e))"
    using wheelRaw_scale_bounds [of r "transform st" e] by (simp add: handleWheel_transform)
  have pinch: "length (touches te) = 2 \<and> lastTouchDistance st = Some l \<and> l \<noteq> 0
          \<and> getTouchDistance (touches te) = Some c \<and> c \<noteq> 0 \<Longrightarrow>
          0.6 \<le> tr_scale (transform (handleTouchMove (Some r) st te))"
    using handleTouchMove_anchored(1) [of te st l c r] by simp
  show ?thesis
    using w1 handleWheel_anchored [of r st e]
      anchored_zoom [OF assms wb] anchored_zoom [OF assms pinch]
      handleTouchMove_anchored [of te st l c r]
    by simp
qed

text \<open>
  From scale 1 with no translation and a recorded touch distance of 100, in an 800 by
  600 viewport: a wheel step towards the user at \<open>(400, 300)\<close> stores
  \<open>(-40, -30)\<close> at scale 1.1; a pinch to distance 150 around \<open>(400, 300)\<close> stores
  \<open>(-200, -150)\<close> at scale 1.5. In both the canvas point \<open>(400, 300)\<close> stays under
  the focal point.
\<close>

theorem zoom_handlers_anchor_fixed_witness:
  "0 < tr_scale (transform (initialState\<lparr>lastTouchDistance := Some 100\<rparr>))
   \<and> length (touches \<lparr>touches = [\<lparr>clientX = 325, clientY = 300\<rparr>, \<lparr>clientX = 475, clientY = 300\<rparr>],
                      touchOnMarker = False\<rparr>) = 2
   \<and> lastTouchDistance (initialState\<lparr>lastTouchDistance := Some 100\<rparr>) = Some 100
   \<and> getTouchDistance [\<lparr>clientX = 325, clientY = 300\<rparr>, \<lparr>clientX = 475, clientY = 300\<rparr>] = Some 150
   \<and> transform (handleWheel (Some viewport800x600)
        (initialState\<lparr>lastTouchDistance := Some 100\<rparr>)
        \<lparr>clientX = 400, clientY = 300, deltaY = - 100\<rparr>)
       = \<lparr>tr_x = - 40, tr_y = - 30, tr_scale = 11 / 10\<rparr>
   \<and> canvasCoordinate_spec 400 (- 40) (11 / 10) = 400
   \<and> canvasCoordinate_spec 300 (- 30) (11 / 10) = 300
   \<and> transform (handleTouchMove (Some viewport800x600)
        (initialState\<lparr>lastTouchDistance := Some 100\<rparr>)
        \<lparr>touches = [\<lparr>clientX = 325, clientY = 300\<rparr>, \<lparr>clientX = 475, clientY = 300\<rparr>],
         touchOnMarker = False\<rparr>)
       = \<lparr>tr_x = - 200, tr_y = - 150, tr_scale = 3 / 2\<rparr>
   \<and> canvasCoordinate_spec 400 (- 200) (3 / 2) = 400
   \<and> canvasCoordinate_spec 300 (- 150) (3 / 2) = 300"
  using zoom_handlers_anchor_fixed
    [where st = "initialState\<lparr>lastTouchDistance := Some 100\<rparr>" and r = viewport800x600
       and e = "\<lparr>clientX = 400, clientY = 300, deltaY = - 100\<rparr>" and l = 100 and c = 150
       and te = "\<lparr>touches = [\<lparr>clientX = 325, clientY = 300\<rparr>, \<lparr>clientX = 475, clientY = 300\<rparr>],
                  touchOnMarker = False\<rparr>"]
  by (simp add: initialState_def getTouchDistance_level absoluteMinZoom_eq
      constrainToBounds_Some anchoredTranslation_spec_def canvasCoordinate_spec_def
      handleWheel_transform wheelRaw_def handleTouchMove_def truthy_def pinchRaw_def Let_def)

section \<open>Bounds of the scale\<close>

lemma handleWheel_scale:
  "tr_scale (transform (handleWheel rect st e)) =
     (case rect of None \<Rightarrow> tr_scale (transform st)
      | Some r \<Rightarrow> tr_scale (wheelRaw r (transform st) e))"
  by (simp add: handleWheel_def Let_def split: option.split)

lemma handleTouchMove_scale:
  "tr_scale (transform (handleTouchMove rect st e)) = tr_scale (transform st)
   \<or> (\<exists>r l c. tr_scale (transform (handleTouchMove rect st e))
         = tr_scale (pinchRaw r (transform st) l c (touches e)))"
  by (auto simp: handleTouchMove_def Let_def split: option.split)

lemma zoomIn_scale:
  "tr_scale (transform (zoomInButton_onClick rect st)) = min (tr_scale (transform st) * 1.2) 3"
  by (simp add: zoomInButton_onClick_def Let_def)

lemma zoomOut_scale:
  "tr_scale (transform (zoomOutButton_onClick rect st)) =
     (case rect of None \<Rightarrow> tr_scale (transform st)
      | Some r \<Rightarrow> max (tr_scale (transform st) * 0.8) (absoluteMinZoom r))"
  by (simp add: zoomOutButton_onClick_def Let_def split: option.split)

lemma clusterClick_scale:
  "tr_scale (transform (handleClusterClick rect st c)) = tr_scale (transform st)
   \<or> tr_scale (transform (handleClusterClick rect st c)) = min (tr_scale (transform st) * 2.5) 3"
  by (simp add: handleClusterClick_def Let_def split: option.split)

lemma centerMap_scale:
  "tr_scale (transform (centerMap rect st)) =
     (case rect of None \<Rightarrow> tr_scale (transform st)
      | Some r \<Rightarrow> fitScale_spec (r_width r) (r_height r))"
  by (cases rect) (simp_all add: centerMap_Some, simp add: centerMap_def)


lemma fitScale_floor: "0.6 \<le> fitScale_spec w h"
  by (simp add: fitScale_spec_def)





section \<open>An unmeasured viewport\<close>

lemma floor_centerMap:
  "0.6 \<le> tr_scale (transform st) \<Longrightarrow> 0.6 \<le> tr_scale (transform (centerMap rect st))"
  using fitScale_floor unfolding centerMap_scale by (cases rect) simp_all

lemma floor_zoomOut:
  "0.6 \<le> tr_scale (transform st) \<Longrightarrow>
   0.6 \<le> tr_scale (transform (zoomOutButton_onClick rect st))"
proof (cases rect)
  case None
  assume "0.6 \<le> tr_scale (transform st)"
  with None show ?thesis by (simp add: zoomOut_scale)
next
  case (Some a)
  have "absoluteMinZoom a \<le> max (tr_scale (transform st) * 0.8) (absoluteMinZoom a)"
    by simp
  then show ?thesis
    using Some absoluteMinZoom_floor [of a] by (simp add: zoomOut_scale)
qed

lemma floor_zoomIn:
  "0.6 \<le> tr_scale (transform st) \<Longrightarrow>
   0.6 \<le> tr_scale (transform (zoomInButton_onClick rect st))"
  unfolding zoomIn_scale by simp

lemma floor_clusterClick:
  "0.6 \<le> tr_scale (transform st) \<Longrightarrow>
   0.6 \<le> tr_scale (transform (handleClusterClick rect st c))"
  using clusterClick_scale [of rect st c] by auto

lemma floor_handleWheel:
  "0.6 \<le> tr_scale (transform st) \<Longrightarrow> 0.6 \<le> tr_scale (transform (handleWheel rect st e))"
  using wheelRaw_scale_bounds unfolding handleWheel_scale by (cases rect) simp_all

lemma floor_handleTouchMove:
  "0.6 \<le> tr_scale (transform st) \<Longrightarrow>
   0.6 \<le> tr_scale (transform (handleTouchMove rect st e))"
  using handleTouchMove_scale [of rect st e] pinchRaw_scale_bounds by auto

lemma scale_untouched:
  "tr_scale (transform (handleMouseDown st me)) = tr_scale (transform st)
   \<and> tr_scale (transform (handleMouseUp st)) = tr_scale (transform st)
   \<and> tr_scale (transform (handleTouchStart st te)) = tr_scale (transform st)
   \<and> tr_scale (transform (handleTouchEnd st)) = tr_scale (transform st)"
  by (simp add: handleMouseDown_def handleMouseUp_def handleTouchStart_def handleTouchEnd_def)

text \<open>Without a recorded non-zero distance the touch handler does not reach the pinch.\<close>

lemma pinch_needs_truthy_distance:
  "\<not> truthy (lastTouchDistance st) \<Longrightarrow> \<not> (length (touches te) = 1 \<and> isDragging st) \<Longrightarrow>
   handleTouchMove rect st te = st"
  by (auto simp: handleTouchMove_def)

text \<open>
  C8, as the handlers have it. When the map element has no bounding rectangle, the
  initial centering, reset, wheel zoom, the zoom-out button, cluster zoom and the pinch
  branch of the touch handler leave the state as it is. The zoom-in button and a drag
  are not guarded: the button still multiplies the scale and keeps the translation, a
  drag still moves the translation, unclamped. No handler divides by zero, with any
  viewport measurement or none: the divisors are the effective canvas dimensions, which
  are the constants 2183 and 1301; the scale, which is 1 initially and which every
  handler keeps at least 0.6 once it is at least 0.6; and the recorded touch distance,
  without which (none recorded, or zero) the touch handler does not reach the pinch.
\<close>

theorem viewport_unavailable_and_divisors:
  "centerMap None st = st
   \<and> resetButton_onClick None st = st
   \<and> handleWheel None st we = st
   \<and> zoomOutButton_onClick None st = st
   \<and> handleClusterClick None st c = st
   \<and> (\<not> (length (touches te) = 1 \<and> isDragging st) \<longrightarrow> handleTouchMove None st te = st)
   \<and> transform (zoomInButton_onClick None st) =
        \<lparr>tr_x = tr_x (transform st), tr_y = tr_y (transform st),
         tr_scale = min (tr_scale (transform st) * 1.2) 3\<rparr>
   \<and> (isDragging st \<longrightarrow>
        transform (handleMouseMove None st me) =
          \<lparr>tr_x = clientX me - pos_x (dragStart st), tr_y = clientY me - pos_y (dragStart st),
           tr_scale = tr_scale (transform st)\<rparr>)
   \<and> mapWidth - mapOffsetX = 2183
   \<and> mapHeight - mapOffsetY = 1301
   \<and> 0.6 \<le> tr_scale (transform initialState)
   \<and> (0.6 \<le> tr_scale (transform st) \<longrightarrow>
        0.6 \<le> tr_scale (transform (centerMap rect st))
        \<and> 0.6 \<le> tr_scale (transform (resetButton_onClick rect st))
        \<and> 0.6 \<le> tr_scale (transform (zoomInButton_onClick rect st))
        \<and> 0.6 \<le> tr_scale (transform (zoomOutButton_onClick rect st))
        \<and> 0.6 \<le> tr_scale (transform (handleClusterClick rect st c))
        \<and> 0.6 \<le> tr_scale (transform (handleMouseDown st me))
        \<and> 0.6 \<le> tr_scale (transform (handleMouseMove rect st me))
        \<and> 0.6 \<le> tr_scale (transform (handleMouseUp st))
        \<and> 0.6 \<le> tr_scale (transform (handleWheel rect st we))
        \<and> 0.6 \<le> tr_scale (transform (handleTouchStart st te))
        \<and> 0.6 \<le> tr_scale (transform (handleTouchMove rect st te))
        \<and> 0.6 \<le> tr_scale (transform (handleTouchEnd st)))
   \<and> (\<not> (length (touches te) = 1 \<and> isDragging st)
        \<and> (lastTouchDistance st = None \<or> lastTouchDistance st = Some 0) \<longrightarrow>
        handleTouchMove rect st te = st)"
proof -
  have noop: "centerMap None st = st
   \<and> resetButton_onClick None st = st
   \<and> handleWheel None st we = st
   \<and> zoomOutButton_onClick None st = st
   \<and> handleClusterClick None st c = st
   \<and> (\<not> (length (touches te) = 1 \<and> isDragging st) \<longrightarrow> handleTouchMove None st te = st)
   \<and> transform (zoomInButton_onClick None st) =
        \<lparr>tr_x = tr_x (transform st), tr_y = tr_y (transform st),
         tr_scale = min (tr_scale (transform st) * 1.2) 3\<rparr>
   \<and> (isDragging st \<longrightarrow>
        transform (handleMouseMove None st me) =
          \<lparr>tr_x = clientX me - pos_x (dragStart st), tr_y = clientY me - pos_y (dragStart st),
           tr_scale = tr_scale (transform st)\<rparr>)"
    by (simp add: centerMap_def resetButton_onClick_def handleWheel_def zoomOutButton_onClick_def
        handleClusterClick_def handleTouchMove_def zoomInButton_onClick_def handleMouseMove_def
        constrainToBounds_None Let_def)
  have divs: "mapWidth - mapOffsetX = 2183 \<and> mapHeight - mapOffsetY = 1301
      \<and> 0.6 \<le> tr_scale (transform initialState)"
    by (simp add: canvas_defs initialState_def)
  have lower: "0.6 \<le> tr_scale (transform st) \<Longrightarrow>
        0.6 \<le> tr_scale (transform (centerMap rect st))
        \<and> 0.6 \<le> tr_scale (transform (resetButton_onClick rect st))
        \<and> 0.6 \<le> tr_scale (transform (zoomInButton_onClick rect st))
        \<and> 0.6 \<le> tr_scale (transform (zoomOutButton_onClick rect st))
        \<and> 0.6 \<le> tr_scale (transform (handleClusterClick rect st c))
        \<and> 0.6 \<le> tr_scale (transform (handleMouseDown st me))
        \<and> 0.6 \<le> tr_scale (transform (handleMouseMove rect st me))
        \<and> 0.6 \<le> tr_scale (transform (handleMouseUp st))
        \<and> 0.6 \<le> tr_scale (transform (handleWheel rect st we))
        \<and> 0.6 \<le> tr_scale (transform (handleTouchStart st te))
        \<and> 0.6 \<le> tr_scale (transform (handleTouchMove rect st te))
        \<and> 0.6 \<le> tr_scale (transform (handleTouchEnd st))"
    using floor_centerMap [of st rect] floor_zoomIn [of st rect] floor_zoomOut [of st rect]
      floor_clusterClick [of st rect c] floor_handleWheel [of st rect we]
      floor_handleTouchMove [of st rect te] scale_untouched [of st me te]
    by (simp add: resetButton_eq_centerMap handleMouseMove_scale)
  have guard: "\<not> (length (touches te) = 1 \<and> isDragging st)
        \<and> (lastTouchDistance st = None \<or> lastTouchDistance st = Some 0) \<Longrightarrow>
        handleTouchMove rect st te = st"
    by (rule pinch_needs_truthy_distance) (auto simp: truthy_def)
  show ?thesis
    using noop divs lower guard by blast
qed

text \<open>
  A dragging state with a recorded touch distance: a two-finger move without a bounding
  rectangle changes nothing, a mouse move to \<open>(130, 90)\<close> sets the translation
  \<open>(30, -10)\<close>, and a wheel step in a viewport of zero width and height keeps the scale
  at least 0.6. With the recorded distance zero, a two-finger move in an 800 by 600
  viewport changes nothing.
\<close>

theorem viewport_unavailable_and_divisors_witness:
  "\<not> (length (touches \<lparr>touches = [\<lparr>clientX = 325, clientY = 300\<rparr>, \<lparr>clientX = 475, clientY = 300\<rparr>],
                       touchOnMarker = False\<rparr>) = 1
        \<and> isDragging (initialState\<lparr>isDragging := True, dragStart := \<lparr>pos_x = 100, pos_y = 100\<rparr>,
                                    lastTouchDistance := Some 100\<rparr>))
   \<and> isDragging (initialState\<lparr>isDragging := True, dragStart := \<lparr>pos_x = 100, pos_y = 100\<rparr>,
                               lastTouchDistance := Some 100\<rparr>)
   \<and> 0.6 \<le> tr_scale (transform
        (initialState\<lparr>isDragging := True, dragStart := \<lparr>pos_x = 100, pos_y = 100\<rparr>,
                      lastTouchDistance := Some 100\<rparr>))
   \<and> handleTouchMove None
        (initialState\<lparr>isDragging := True, dragStart := \<lparr>pos_x = 100, pos_y = 100\<rparr>,
                      lastTouchDistance := Some 100\<rparr>)
        \<lparr>touches = [\<lparr>clientX = 325, clientY = 300\<rparr>, \<lparr>clientX = 475, clientY = 300\<rparr>],
         touchOnMarker = False\<rparr>
       = initialState\<lparr>isDragging := True, dragStart := \<lparr>pos_x = 100, pos_y = 100\<rparr>,
                      lastTouchDistance := Some 100\<rparr>
   \<and> transform (handleMouseMove None
        (initialState\<lparr>isDragging := True, dragStart := \<lparr>pos_x = 100, pos_y = 100\<rparr>,
                      lastTouchDistance := Some 100\<rparr>)
        \<lparr>clientX = 130, clientY = 90, targetOnMarker = False\<rparr>)
       = \<lparr>tr_x = 30, tr_y = - 10, tr_scale = 1\<rparr>
   \<and> tr_scale (transform (handleWheel (Some \<lparr>r_left = 0, r_top = 0, r_width = 0, r_height = 0\<rparr>)
        (initialState\<lparr>isDragging := True, dragStart := \<lparr>pos_x = 100, pos_y = 100\<rparr>,
                      lastTouchDistance := Some 100\<rparr>)
        \<lparr>clientX = 0, clientY = 0, deltaY = 100\<rparr>)) = 9 / 10
   \<and> lastTouchDistance (initialState\<lparr>lastTouchDistance := Some 0\<rparr>) = Some 0
   \<and> handleTouchMove (Some viewport800x600) (initialState\<lparr>lastTouchDistance := Some 0\<rparr>)
        \<lparr>touches = [\<lparr>clientX = 325, clientY = 300\<rparr>, \<lparr>clientX = 475, clientY = 300\<rparr>],
         touchOnMarker = False\<rparr>
       = initialState\<lparr>lastTouchDistance := Some 0\<rparr>"
  using
    viewport_unavailable_and_divisors
      [where st = "initialState\<lparr>isDragging := True, dragStart := \<lparr>pos_x = 100, pos_y = 100\<rparr>,
                                lastTouchDistance := Some 100\<rparr>"
         and rect = "Some \<lparr>r_left = 0, r_top = 0, r_width = 0, r_height = 0\<rparr>"
         and te = "\<lparr>touches = [\<lparr>clientX = 325, clientY = 300\<rparr>, \<lparr>clientX = 475, clientY = 300\<rparr>],
                    touchOnMarker = False\<rparr>"
         and me = "\<lparr>clientX = 130, clientY = 90, targetOnMarker = False\<rparr>"
         and we = "\<lparr>clientX = 0, clientY = 0, deltaY = 100\<rparr>"]
    viewport_unavailable_and_divisors
      [where st = "initialState\<lparr>lastTouchDistance := Some 0\<rparr>"
         and rect = "Some viewport800x600"
         and te = "\<lparr>touches = [\<lparr>clientX = 325, clientY = 300\<rparr>, \<lparr>clientX = 475, clientY = 300\<rparr>],
                    touchOnMarker = False\<rparr>"]
  by (simp add: initialState_def handleWheel_scale wheelRaw_scale absoluteMinZoom_eq)

text \<open>
  C8 as stated fails: a measured viewport of zero width and height is not treated as
  unavailable. The wheel handler still zooms, from scale 1 to 1.1.
\<close>

theorem zero_viewport_wheel_not_noop:
  "transform (handleWheel (Some \<lparr>r_left = 0, r_top = 0, r_width = 0, r_height = 0\<rparr>) initialState
       \<lparr>clientX = 0, clientY = 0, deltaY = - 100\<rparr>)
     = \<lparr>tr_x = 0, tr_y = 0, tr_scale = 11 / 10\<rparr>
   \<and> handleWheel (Some \<lparr>r_left = 0, r_top = 0, r_width = 0, r_height = 0\<rparr>) initialState
       \<lparr>clientX = 0, clientY = 0, deltaY = - 100\<rparr> \<noteq> initialState"
proof -
  have a: "transform (handleWheel (Some \<lparr>r_left = 0, r_top = 0, r_width = 0, r_height = 0\<rparr>)
       initialState \<lparr>clientX = 0, clientY = 0, deltaY = - 100\<rparr>)
     = \<lparr>tr_x = 0, tr_y = 0, tr_scale = 11 / 10\<rparr>"
    by (simp add: handleWheel_def wheelRaw_def absoluteMinZoom_def constrainToBounds_Some
        initialState_def canvas_defs Let_def)
  have b: "transform initialState \<noteq> \<lparr>tr_x = 0, tr_y = 0, tr_scale = 11 / 10\<rparr>"
    by (simp add: initialState_def)
  show ?thesis using a b by metis
qed

section \<open>Marker positions\<close>

text \<open>
  C9, as the render loop has it. A project without location data, or whose
  \<open>location.x\<close> is not a number, is drawn at the canvas center \<open>(1319, 911)\<close>. Every
  numeric position \<open>(x, y)\<close>, inside \<open>[0,100]\<close> or not, is drawn at
  \<open>(x/100 * 2638, y/100 * 1822)\<close>; for a position inside \<open>[0,100]\<close> that point lies on
  the canvas.
\<close>

theorem markerPosition_cases:
  "markerPosition \<lparr>proj_id = i, location = None\<rparr> = \<lparr>pos_x = 2638 / 2, pos_y = 1822 / 2\<rparr>
   \<and> markerPosition \<lparr>proj_id = i, location = Some \<lparr>loc_x = None, loc_y = ly\<rparr>\<rparr>
       = \<lparr>pos_x = 2638 / 2, pos_y = 1822 / 2\<rparr>
   \<and> markerPosition (projectAt i lx ly) = \<lparr>pos_x = lx / 100 * 2638, pos_y = ly / 100 * 1822\<rparr>
   \<and> (0 \<le> lx \<and> lx \<le> 100 \<and> 0 \<le> ly \<and> ly \<le> 100 \<longrightarrow>
        0 \<le> pos_x (markerPosition (projectAt i lx ly))
        \<and> pos_x (markerPosition (projectAt i lx ly)) \<le> 2638
        \<and> 0 \<le> pos_y (markerPosition (projectAt i lx ly))
        \<and> pos_y (markerPosition (projectAt i lx ly)) \<le> 1822)"
  by (simp add: markerPosition_def)

text \<open>The position \<open>(10, 10)\<close> is drawn at \<open>(263.8, 182.2)\<close>.\<close>

theorem markerPosition_cases_witness:
  "(0::real) \<le> 10 \<and> (10::real) \<le> 100
   \<and> markerPosition (projectAt ''a'' 10 10) = \<lparr>pos_x = 1319 / 5, pos_y = 911 / 5\<rparr>
   \<and> markerPosition \<lparr>proj_id = ''a'', location = None\<rparr> = \<lparr>pos_x = 1319, pos_y = 911\<rparr>"
  using markerPosition_cases [where i = "''a''" and lx = 10 and ly = 10]
  by simp

text \<open>
  C9 as stated fails: a position outside \<open>[0,100]\<close> does not fall back to the canvas
  center. The position \<open>(150, 50)\<close> is drawn at \<open>(3957, 911)\<close>, right of the canvas.
\<close>

theorem out_of_range_marker_not_centered:
  "markerPosition (projectAt ''p1'' 150 50) = \<lparr>pos_x = 3957, pos_y = 911\<rparr>
   \<and> markerPosition (projectAt ''p1'' 150 50) \<noteq> \<lparr>pos_x = 2638 / 2, pos_y = 1822 / 2\<rparr>"
  by (simp add: markerPosition_def)

section \<open>Clustering: every point in exactly one cluster\<close>

lemma nearest_Some: "nearest ds = Some (i, m) \<Longrightarrow> i < length ds \<and> ds ! i = m"
  by (induction ds arbitrary: i m) (auto split: option.splits if_splits)

lemma mset_concat_update:
  "i < length xss \<Longrightarrow> mset (concat (xss[i := xss ! i @ [x]])) = mset (concat xss) + {#x#}"
  by (induction xss arbitrary: i) (auto split: nat.splits)

lemma mset_concat_map_update:
  "i < length cs \<Longrightarrow>
   mset (concat ((map f cs)[i := f (cs ! i) @ [x]])) = mset (concat (map f cs)) + {#x#}"
  using mset_concat_update [of i "map f cs" x] by simp

lemma projects_mkCluster: "projects (mkCluster i ms) = ms"
  by (simp add: mkCluster_def)

text \<open>A step of the greedy pass either appends a singleton or extends one cluster.\<close>

lemma addPoint_cases:
  "addPoint radius cs p = cs @ [mkCluster (length cs) [p]]
   \<or> (\<exists>i < length cs. addPoint radius cs p
         = cs[i := mkCluster (cl_id (cs ! i)) (projects (cs ! i) @ [p])])"
proof (cases "nearest (map (\<lambda>c. distance (denormalize p) \<lparr>pos_x = cl_x c, pos_y = cl_y c\<rparr>) cs)")
  case None
  then show ?thesis by (simp add: addPoint_def)
next
  case (Some im)
  obtain i m where im: "im = (i, m)" by (cases im)
  with Some have "i < length cs" using nearest_Some by fastforce
  with Some im show ?thesis by (cases "m \<le> radius") (auto simp: addPoint_def)
qed

lemma mset_addPoint:
  "mset (concat (map projects (addPoint radius cs p))) = mset (concat (map projects cs)) + {#p#}"
  using addPoint_cases [of radius cs p]
  by (auto simp: projects_mkCluster map_update mset_concat_map_update)

lemma nonempty_addPoint:
  assumes "\<forall>c \<in> set cs. projects c \<noteq> []"
  shows "\<forall>c \<in> set (addPoint radius cs p). projects c \<noteq> []"
  using addPoint_cases [of radius cs p] assms
  by (auto simp: projects_mkCluster dest!: set_update_subset_insert [THEN subsetD])

lemma mset_foldl_addPoint:
  "mset (concat (map projects (foldl (addPoint radius) cs ps)))
     = mset (concat (map projects cs)) + mset ps"
  by (induction ps arbitrary: cs) (simp_all add: mset_addPoint)

lemma nonempty_foldl_addPoint:
  "\<forall>c \<in> set cs. projects c \<noteq> [] \<Longrightarrow>
   \<forall>c \<in> set (foldl (addPoint radius) cs ps). projects c \<noteq> []"
proof (induction ps arbitrary: cs)
  case Nil
  then show ?case by simp
next
  case (Cons p ps)
  from Cons.prems have "\<forall>c \<in> set (addPoint radius cs p). projects c \<noteq> []"
    by (rule nonempty_addPoint)
  then show ?case using Cons.IH by simp
qed

text \<open>In a list of lists without repetition overall, an element sits at one index only.\<close>

lemma distinct_concat_unique_index:
  "distinct (concat xss) \<Longrightarrow> i < length xss \<Longrightarrow> j < length xss \<Longrightarrow>
   x \<in> set (xss ! i) \<Longrightarrow> x \<in> set (xss ! j) \<Longrightarrow> i = j"
proof (induction xss arbitrary: i j)
  case Nil
  then show ?case by simp
next
  case (Cons xs xss)
  show ?case
  proof (cases i)
    case 0
    note i0 = this
    show ?thesis
    proof (cases j)
      case 0
      with i0 show ?thesis by simp
    next
      case (Suc j')
      with Cons.prems i0 have "x \<in> set xs" "x \<in> set (xss ! j')" "j' < length xss" by simp_all
      then have "x \<in> set xs \<inter> \<Union> (set ` set xss)" by (auto dest: nth_mem)
      with Cons.prems(1) show ?thesis by auto
    qed
  next
    case (Suc i')
    note iS = this
    show ?thesis
    proof (cases j)
      case 0
      with Cons.prems iS have "x \<in> set xs" "x \<in> set (xss ! i')" "i' < length xss" by simp_all
      then have "x \<in> set xs \<inter> \<Union> (set ` set xss)" by (auto dest: nth_mem)
      with Cons.prems(1) show ?thesis by auto
    next
      case (Suc j')
      with Cons.prems iS have "i' = j'" by (intro Cons.IH) simp_all
      with iS Suc show ?thesis by simp
    qed
  qed
qed

lemma distance_same_y:
  "distance \<lparr>pos_x = a, pos_y = c\<rparr> \<lparr>pos_x = b, pos_y = c\<rparr> = \<bar>a - b\<bar>"
  by (simp add: distance_def)

lemmas cluster_eval =
  cluster_def clusteringRadius_def addPoint_def mkCluster_def centroid_def denormalize_def
  canvas_defs distance_same_y

text \<open>
  The four points at radius 80: \<open>b\<close> joins \<open>a\<close>, the centroid moves to 135, and \<open>c\<close>
  and \<open>d\<close>, each 83 away from it, start clusters of their own.
\<close>

lemma fourOnALine_scale_1:
  "cluster 80 fourOnALine 1
   = Inr [\<lparr>cl_id = 0, cl_x = 135, cl_y = 911, projects =
            [projectAt ''a'' (5000 / 1319) 50, projectAt ''b'' (8500 / 1319) 50]\<rparr>,
          \<lparr>cl_id = 1, cl_x = 52, cl_y = 911, projects = [projectAt ''c'' (2600 / 1319) 50]\<rparr>,
          \<lparr>cl_id = 2, cl_x = 218, cl_y = 911, projects = [projectAt ''d'' (10900 / 1319) 50]\<rparr>]"
  by (simp add: cluster_eval)

text \<open>
  C1. A run with a positive scale returns clusters, and the clusters of a run partition
  the input: the member lists together hold the input points, each as often as the
  input does; no cluster is empty; and when the input has no repeated point, every
  point is a member of exactly one cluster.
\<close>

theorem cluster_partitions_input:
  "(0 < s \<longrightarrow> (\<exists>cs. cluster baseRadius points s = Inr cs))
   \<and> (cluster baseRadius points s = Inr cs \<longrightarrow>
        mset (concat (map projects cs)) = mset points
        \<and> (\<forall>c \<in> set cs. projects c \<noteq> [])
        \<and> (distinct points \<longrightarrow>
             (\<forall>p \<in> set points. \<exists>i < length cs. p \<in> set (projects (cs ! i))
                \<and> (\<forall>j < length cs. p \<in> set (projects (cs ! j)) \<longrightarrow> j = i))))"
proof (intro conjI impI)
  assume "0 < s"
  then show "\<exists>cs. cluster baseRadius points s = Inr cs" by (simp add: cluster_def)
next
  assume r: "cluster baseRadius points s = Inr cs"
  then have cs: "cs = foldl (addPoint (clusteringRadius baseRadius s)) [] points"
    by (simp add: cluster_def split: if_splits)
  show m: "mset (concat (map projects cs)) = mset points"
    unfolding cs by (simp add: mset_foldl_addPoint)
  show "\<forall>c \<in> set cs. projects c \<noteq> []"
    unfolding cs by (rule nonempty_foldl_addPoint) simp
  assume d: "distinct points"
  from m d have dc: "distinct (concat (map projects cs))"
    by (simp add: mset_eq_imp_distinct_iff [of "concat (map projects cs)" points])
  show "\<forall>p \<in> set points. \<exists>i < length cs. p \<in> set (projects (cs ! i))
                \<and> (\<forall>j < length cs. p \<in> set (projects (cs ! j)) \<longrightarrow> j = i)"
  proof
    fix p assume "p \<in> set points"
    with m have "p \<in> set (concat (map projects cs))" by (metis set_mset_mset)
    then obtain c where "c \<in> set cs" "p \<in> set (projects c)" by auto
    then obtain i where i: "i < length cs" "p \<in> set (projects (cs ! i))"
      by (auto simp: in_set_conv_nth)
    have "\<forall>j < length cs. p \<in> set (projects (cs ! j)) \<longrightarrow> j = i"
      using distinct_concat_unique_index [OF dc, of _ i p] i by auto
    with i show "\<exists>i < length cs. p \<in> set (projects (cs ! i))
                \<and> (\<forall>j < length cs. p \<in> set (projects (cs ! j)) \<longrightarrow> j = i)" by blast
  qed
qed

text \<open>
  The four points at scale 1 with base radius 80: three clusters, holding \<open>a\<close> and
  \<open>b\<close>, then \<open>c\<close>, then \<open>d\<close>.
\<close>

theorem cluster_partitions_input_witness:
  "(0::real) < 1
   \<and> distinct fourOnALine
   \<and> cluster 80 fourOnALine 1
       = Inr [\<lparr>cl_id = 0, cl_x = 135, cl_y = 911, projects =
                [projectAt ''a'' (5000 / 1319) 50, projectAt ''b'' (8500 / 1319) 50]\<rparr>,
              \<lparr>cl_id = 1, cl_x = 52, cl_y = 911, projects = [projectAt ''c'' (2600 / 1319) 50]\<rparr>,
              \<lparr>cl_id = 2, cl_x = 218, cl_y = 911, projects = [projectAt ''d'' (10900 / 1319) 50]\<rparr>]
   \<and> mset (concat (map projects
        [\<lparr>cl_id = 0, cl_x = 135, cl_y = 911, projects =
            [projectAt ''a'' (5000 / 1319) 50, projectAt ''b'' (8500 / 1319) 50]\<rparr>,
         \<lparr>cl_id = 1, cl_x = 52, cl_y = 911, projects = [projectAt ''c'' (2600 / 1319) 50]\<rparr>,
         \<lparr>cl_id = 2, cl_x = 218, cl_y = 911, projects = [projectAt ''d'' (10900 / 1319) 50]\<rparr>]))
       = mset fourOnALine"
  using cluster_partitions_input
    [where s = 1 and baseRadius = 80 and points = fourOnALine
       and cs = "[\<lparr>cl_id = 0, cl_x = 135, cl_y = 911, projects =
                    [projectAt ''a'' (5000 / 1319) 50, projectAt ''b'' (8500 / 1319) 50]\<rparr>,
                  \<lparr>cl_id = 1, cl_x = 52, cl_y = 911, projects = [projectAt ''c'' (2600 / 1319) 50]\<rparr>,
                  \<lparr>cl_id = 2, cl_x = 218, cl_y = 911,
                   projects = [projectAt ''d'' (10900 / 1319) 50]\<rparr>]"]
    fourOnALine_scale_1
  by simp

section \<open>Clustering: the number of clusters against the scale\<close>

lemma distance_commute: "distance a b = distance b a"
proof -
  have "(pos_x a - pos_x b) * (pos_x a - pos_x b) = (pos_x b - pos_x a) * (pos_x b - pos_x a)"
    and "(pos_y a - pos_y b) * (pos_y a - pos_y b) = (pos_y b - pos_y a) * (pos_y b - pos_y a)"
    by (simp_all add: algebra_simps)
  then show ?thesis by (simp add: distance_def)
qed

lemma centroid_single: "centroid [p] = denormalize p"
  by (simp add: centroid_def)

lemma mkCluster_single_position:
  "\<lparr>pos_x = cl_x (mkCluster i [p]), pos_y = cl_y (mkCluster i [p])\<rparr> = denormalize p"
  by (simp add: mkCluster_def centroid_single)

lemma length_addPoint_le: "length (addPoint radius cs p) \<le> Suc (length cs)"
  using addPoint_cases [of radius cs p] by auto

text \<open>A run never returns more clusters than it was given points.\<close>

lemma length_foldl_addPoint_le:
  "length (foldl (addPoint radius) cs ps) \<le> length cs + length ps"
proof (induction ps arbitrary: cs)
  case Nil
  then show ?case by simp
next
  case (Cons p ps)
  have "length (foldl (addPoint radius) (addPoint radius cs p) ps)
      \<le> length (addPoint radius cs p) + length ps"
    by (rule Cons.IH)
  also have "\<dots> \<le> Suc (length cs) + length ps"
    using length_addPoint_le [of radius cs p] by simp
  finally show ?case by simp
qed

text \<open>A point farther than the radius from every centroid starts a new cluster.\<close>

lemma addPoint_far:
  assumes "\<forall>c \<in> set cs. radius < distance (denormalize p) \<lparr>pos_x = cl_x c, pos_y = cl_y c\<rparr>"
  shows "addPoint radius cs p = cs @ [mkCluster (length cs) [p]]"
proof (cases "nearest (map (\<lambda>c. distance (denormalize p) \<lparr>pos_x = cl_x c, pos_y = cl_y c\<rparr>) cs)")
  case None
  then show ?thesis by (simp add: addPoint_def)
next
  case (Some im)
  obtain i m where im: "im = (i, m)" by (cases im)
  with Some have i: "i < length cs"
    and m: "m = distance (denormalize p) \<lparr>pos_x = cl_x (cs ! i), pos_y = cl_y (cs ! i)\<rparr>"
    using nearest_Some by fastforce+
  from i assms have "radius < m" unfolding m by simp
  with Some im show ?thesis by (simp add: addPoint_def)
qed

lemma foldl_addPoint_far:
  assumes "\<forall>c \<in> set cs. \<forall>p \<in> set ps.
             radius < distance (denormalize p) \<lparr>pos_x = cl_x c, pos_y = cl_y c\<rparr>"
    and "farApart radius (map denormalize ps)"
  shows "length (foldl (addPoint radius) cs ps) = length cs + length ps"
  using assms
proof (induction ps arbitrary: cs)
  case Nil
  then show ?case by simp
next
  case (Cons p ps)
  have step: "addPoint radius cs p = cs @ [mkCluster (length cs) [p]]"
    using Cons.prems(1) by (intro addPoint_far) simp
  have new: "\<forall>p' \<in> set ps. radius < distance (denormalize p')
        \<lparr>pos_x = cl_x (mkCluster (length cs) [p]), pos_y = cl_y (mkCluster (length cs) [p])\<rparr>"
    using Cons.prems(2) unfolding mkCluster_single_position
    by (simp add: distance_commute [of "denormalize p"])
  have "length (foldl (addPoint radius) (cs @ [mkCluster (length cs) [p]]) ps)
      = length (cs @ [mkCluster (length cs) [p]]) + length ps"
    using Cons.prems new by (intro Cons.IH) auto
  then show ?case by (simp add: step)
qed

lemma cluster_eq_clusterWith: "cluster baseRadius = clusterWith (clusteringRadius baseRadius)"
  by (intro ext) (simp add: cluster_def clusterWith_def)

text \<open>Both radius laws do not increase with the scale.\<close>

lemma clusteringRadius_antitone:
  "0 \<le> baseRadius \<Longrightarrow> 0 < s \<Longrightarrow> s \<le> t \<Longrightarrow>
   clusteringRadius baseRadius t \<le> clusteringRadius baseRadius s"
  by (simp add: clusteringRadius_def frac_le)

lemma inverseSquareRadius_antitone:
  "0 \<le> baseRadius \<Longrightarrow> 0 < s \<Longrightarrow> s \<le> t \<Longrightarrow>
   inverseSquareRadius baseRadius t \<le> inverseSquareRadius baseRadius s"
  by (simp add: inverseSquareRadius_def frac_le mult_mono)

text \<open>
  Comparing a distance with a radius, or two distances, without taking a square root.
\<close>

lemma distance_le_iff:
  assumes "0 \<le> r"
  shows "(distance \<lparr>pos_x = ax, pos_y = ay\<rparr> \<lparr>pos_x = bx, pos_y = by\<rparr> \<le> r)
         = ((ax - bx) * (ax - bx) + (ay - by) * (ay - by) \<le> r * r)"
proof -
  have "sqrt (r * r) = r" using assms by simp
  then show ?thesis
    using real_sqrt_le_iff [of "(ax - bx) * (ax - bx) + (ay - by) * (ay - by)" "r * r"]
    by (simp add: distance_def)
qed

lemma distance_times_le_iff:
  assumes "0 \<le> r" and "0 < k"
  shows "(distance \<lparr>pos_x = ax, pos_y = ay\<rparr> \<lparr>pos_x = bx, pos_y = by\<rparr> * k \<le> r)
         = ((ax - bx) * (ax - bx) + (ay - by) * (ay - by) \<le> (r / k) * (r / k))"
proof -
  have "(distance \<lparr>pos_x = ax, pos_y = ay\<rparr> \<lparr>pos_x = bx, pos_y = by\<rparr> * k \<le> r)
      = (distance \<lparr>pos_x = ax, pos_y = ay\<rparr> \<lparr>pos_x = bx, pos_y = by\<rparr> \<le> r / k)"
    using assms(2) by (simp add: field_simps)
  also have "\<dots> = ((ax - bx) * (ax - bx) + (ay - by) * (ay - by) \<le> (r / k) * (r / k))"
    using assms by (intro distance_le_iff) simp
  finally show ?thesis .
qed

lemma distance_le_distance_iff:
  "(distance \<lparr>pos_x = ax, pos_y = ay\<rparr> \<lparr>pos_x = bx, pos_y = by\<rparr>
      \<le> distance \<lparr>pos_x = cx, pos_y = cy\<rparr> \<lparr>pos_x = dx, pos_y = dy\<rparr>)
   = ((ax - bx) * (ax - bx) + (ay - by) * (ay - by)
        \<le> (cx - dx) * (cx - dx) + (cy - dy) * (cy - dy))"
  by (simp add: distance_def)

lemmas addPoint_eval =
  addPoint_def mkCluster_def centroid_def denormalize_def canvas_defs

text \<open>
  The scenario of section 8 at radius 80 and at radius \<open>80/9\<close>, the radii of the
  inverse-square law with base 80 at the scales 1 and 3: two clusters, then three. At
  radius \<open>80/3\<close>, the radius of \<open>baseRadius / scale\<close> at scale 3, the points \<open>a\<close> and
  \<open>b\<close> still share a cluster.
\<close>

lemma section8_radius_80: "length (foldl (addPoint 80) [] section8Points) = 2"
  by (simp add: addPoint_eval distance_le_iff distance_times_le_iff distance_le_distance_iff)

lemma section8_radius_80_9: "length (foldl (addPoint (80 / 9)) [] section8Points) = 3"
  by (simp add: addPoint_eval distance_le_iff distance_times_le_iff distance_le_distance_iff)

lemma section8_radius_80_3: "length (foldl (addPoint (80 / 3)) [] section8Points) = 2"
  by (simp add: addPoint_eval distance_le_iff distance_times_le_iff distance_le_distance_iff)

text \<open>
  The four points on a line. At every radius from 70 up to 83, \<open>b\<close> joins \<open>a\<close>, the
  centroid moves to 135, and \<open>c\<close> and \<open>d\<close>, each 83 away from it, start clusters of
  their own. At every radius from 48 up to 70, \<open>b\<close> starts a cluster, the centroids stay
  at 100 and 170, and \<open>c\<close> and \<open>d\<close>, each 48 away from one of them, join.
\<close>

lemma fourOnALine_wide_radius:
  assumes "70 \<le> R" and "R < 83"
  shows "length (foldl (addPoint R) [] fourOnALine) = 3"
  using assms by (simp add: addPoint_eval distance_same_y)

lemma fourOnALine_narrow_radius:
  assumes "48 \<le> R" and "R < 70"
  shows "length (foldl (addPoint R) [] fourOnALine) = 2"
  using assms by (simp add: addPoint_eval distance_same_y)

text \<open>With at most three points a smaller radius never gives fewer clusters.\<close>

lemma length_three_points_mono:
  assumes "r \<le> R"
  shows "length (foldl (addPoint R) [] [a, b, c]) \<le> length (foldl (addPoint r) [] [a, b, c])"
  using assms by (simp add: addPoint_def mkCluster_def)

lemma small_lists_mono:
  assumes "length points \<le> 3" and "r \<le> R"
  shows "length (foldl (addPoint R) [] points) \<le> length (foldl (addPoint r) [] points)"
proof (cases points)
  case Nil
  then show ?thesis by simp
next
  case (Cons a as)
  note p1 = this
  show ?thesis
  proof (cases as)
    case Nil
    with p1 show ?thesis by (simp add: addPoint_def)
  next
    case (Cons b bs)
    note p2 = this
    show ?thesis
    proof (cases bs)
      case Nil
      with p1 p2 assms(2) show ?thesis by (simp add: addPoint_def mkCluster_def)
    next
      case (Cons c cs)
      with p1 p2 assms(1) have "points = [a, b, c]" by simp
      then show ?thesis using length_three_points_mono [OF assms(2), of a b c] by simp
    qed
  qed
qed

text \<open>
  C5, as far as it holds. Let the clustering radius not increase with the scale (as
  \<open>baseRadius / scale\<close> with a base radius that is not negative), and let
  \<open>0 < s1 \<le> s2\<close>. If the list has at most three points, or if at \<open>s2\<close> the radius is
  below every pairwise distance of the denormalized points, then the run at \<open>s2\<close>
  returns at least as many clusters as the run at \<open>s1\<close>; in the second case it returns
  as many clusters as there are points.
\<close>

theorem cluster_count_monotone_small_or_separated:
  assumes "\<forall>s t. 0 < s \<and> s \<le> t \<longrightarrow> radiusLaw t \<le> radiusLaw s"
    and "0 < s1" and "s1 \<le> s2"
    and "length points \<le> 3 \<or> farApart (radiusLaw s2) (map denormalize points)"
  shows "clusterCount (clusterWith radiusLaw points s1)
           \<le> clusterCount (clusterWith radiusLaw points s2)
         \<and> (farApart (radiusLaw s2) (map denormalize points) \<longrightarrow>
              clusterCount (clusterWith radiusLaw points s2) = length points)
         \<and> (radiusLaw = clusteringRadius baseRadius \<longrightarrow>
              clusterCount (cluster baseRadius points s1)
                \<le> clusterCount (cluster baseRadius points s2))"
proof -
  have s2: "0 < s2" using assms(2,3) by simp
  have r: "radiusLaw s2 \<le> radiusLaw s1" using assms(1,2,3) by blast
  have far: "farApart (radiusLaw s2) (map denormalize points) \<Longrightarrow>
      length (foldl (addPoint (radiusLaw s2)) [] points) = length points"
    using foldl_addPoint_far [of "[]" points "radiusLaw s2"] by simp
  have le: "length (foldl (addPoint (radiusLaw s1)) [] points)
      \<le> length (foldl (addPoint (radiusLaw s2)) [] points)"
    using assms(4)
  proof
    assume "length points \<le> 3"
    then show ?thesis using r by (rule small_lists_mono)
  next
    assume "farApart (radiusLaw s2) (map denormalize points)"
    then show ?thesis
      using far length_foldl_addPoint_le [of "radiusLaw s1" "[]" points] by simp
  qed
  have main: "clusterCount (clusterWith radiusLaw points s1)
      \<le> clusterCount (clusterWith radiusLaw points s2)"
    using le assms(2) s2 by (simp add: clusterCount_def clusterWith_def)
  have sep: "farApart (radiusLaw s2) (map denormalize points) \<longrightarrow>
      clusterCount (clusterWith radiusLaw points s2) = length points"
    using far s2 by (simp add: clusterCount_def clusterWith_def)
  have named: "radiusLaw = clusteringRadius baseRadius \<longrightarrow>
      clusterCount (cluster baseRadius points s1) \<le> clusterCount (cluster baseRadius points s2)"
    using main by (auto simp: cluster_eq_clusterWith)
  show ?thesis
    using main sep named by blast
qed

text \<open>
  The scenario of section 8 under the inverse-square law with base 80: two clusters at
  scale 1, three at scale 3. The four points on a line under \<open>baseRadius / scale\<close> with
  base 80: at scale 4 the radius is 20, below the smallest distance 48, and the run
  returns four clusters; at scale 1 it returns three.
\<close>

theorem cluster_count_monotone_small_or_separated_witness:
  "(0::real) < 1 \<and> (1::real) \<le> 3 \<and> length section8Points \<le> 3
   \<and> clusterCount (clusterWith (inverseSquareRadius 80) section8Points 1) = 2
   \<and> clusterCount (clusterWith (inverseSquareRadius 80) section8Points 3) = 3
   \<and> (1::real) \<le> 4
   \<and> farApart (clusteringRadius 80 4) (map denormalize fourOnALine)
   \<and> clusterCount (cluster 80 fourOnALine 1) = 3
   \<and> clusterCount (cluster 80 fourOnALine 4) = 4"
proof -
  have law2: "\<forall>s t. 0 < s \<and> s \<le> t \<longrightarrow> inverseSquareRadius 80 t \<le> inverseSquareRadius 80 s"
    using inverseSquareRadius_antitone [of 80] by simp
  have law1: "\<forall>s t. 0 < s \<and> s \<le> t \<longrightarrow> clusteringRadius 80 t \<le> clusteringRadius 80 s"
    using clusteringRadius_antitone [of 80] by simp
  have far: "farApart (clusteringRadius 80 4) (map denormalize fourOnALine)"
    by (simp add: clusteringRadius_def denormalize_def canvas_defs distance_same_y)
  have a1: "clusterCount (clusterWith (inverseSquareRadius 80) section8Points 1) = 2"
    using section8_radius_80 by (simp add: clusterCount_def clusterWith_def inverseSquareRadius_def)
  have a3: "clusterCount (clusterWith (inverseSquareRadius 80) section8Points 3) = 3"
    using section8_radius_80_9
    by (simp add: clusterCount_def clusterWith_def inverseSquareRadius_def)
  have b1: "clusterCount (cluster 80 fourOnALine 1) = 3"
    by (simp add: clusterCount_def fourOnALine_scale_1)
  show ?thesis
    using
      cluster_count_monotone_small_or_separated
        [where radiusLaw = "inverseSquareRadius 80" and ?s1.0 = 1 and ?s2.0 = 3
           and points = section8Points, OF law2]
      cluster_count_monotone_small_or_separated
        [where radiusLaw = "clusteringRadius 80" and ?s1.0 = 1 and ?s2.0 = 4
           and points = fourOnALine and baseRadius = 80, OF law1]
      far a1 a3 b1
    by (simp add: cluster_eq_clusterWith)
qed

text \<open>
  C5 as stated fails. The four points on a line form three clusters at scale 1 and two
  at the larger scale \<open>5/4\<close>, under \<open>baseRadius / scale\<close> with base 80 (radii 80 and 64)
  and under the inverse-square law with base 80 (radii 80 and 51.2) alike.
\<close>

theorem cluster_count_not_monotone:
  "(1::real) \<le> 5 / 4
   \<and> clusterCount (cluster 80 fourOnALine 1) = 3
   \<and> clusterCount (cluster 80 fourOnALine (5 / 4)) = 2
   \<and> clusterCount (clusterWith (inverseSquareRadius 80) fourOnALine 1) = 3
   \<and> clusterCount (clusterWith (inverseSquareRadius 80) fourOnALine (5 / 4)) = 2"
proof -
  have wide: "length (foldl (addPoint 80) [] fourOnALine) = 3"
    by (rule fourOnALine_wide_radius) simp_all
  have n64: "length (foldl (addPoint 64) [] fourOnALine) = 2"
    by (rule fourOnALine_narrow_radius) simp_all
  have n51: "length (foldl (addPoint (256 / 5)) [] fourOnALine) = 2"
    by (rule fourOnALine_narrow_radius) simp_all
  show ?thesis
    using wide n64 n51
    by (simp add: clusterCount_def cluster_def clusterWith_def clusteringRadius_def
        inverseSquareRadius_def)
qed

end
